theory Spec2Isabelle
  imports Complex_Main
begin

section \<open>Volcano: a shallow embedding of the gateway (index.ts) and the worker (worker.js)\<close>

text \<open>
  Conventions of the embedding.
  \<^item> Millisecond quantities (positions, durations, seek times, start and end marks) are
    \<open>int\<close>; the playback rate and the filter parameters are \<open>rat\<close>. JavaScript
    numbers are IEEE doubles: the arithmetic on them is read here as exact arithmetic.
  \<^item> \<open>undefined\<close> and \<open>null\<close> are \<open>None\<close>; an exception is a value of \<open>js_error\<close>.
  \<^item> Every function that posts to the parent port returns the posted messages, in order,
    beside the new state.
  \<^item> What belongs to a library (the track decoder, the audio player, the websocket
    server, the number printer of the engine) is a parameter or is described where it is
    used. The thread pool is the one part of the repository that is not among the sources;
    it is modelled from the specification.
  \<^item> An async function is cut where it can be suspended; each piece is a function, and
    the pieces are put together by a step relation where a property needs it.
  \<^item> Not embedded, because no property below needs them: the wall clock and the timers'
    periods, \<open>/loadtracks\<close>, the stats, the voice connection's listener, the wait of
    \<open>play()\<close> for the Playing state with its stuck branch, and the STOP, PAUSE, VOLUME,
    DESTROY, STATS and DELETE_ALL cases of the worker's handler.
\<close>

subsection \<open>REST: GET /decodetracks (index.ts)\<close>

text \<open>
  \<open>TrackInfo\<close> is the object \<open>encoding.decode\<close> returns. The fields listed are the ones
  the repository reads; whatever else a decoded blob carries (flags, version, probe
  information, a seekability flag) lives in the extension part of the record.
\<close>

record TrackInfo =
  tidentifier :: string
  author :: string
  tlength :: int
  isStream :: bool
  tposition :: int
  title :: string
  uri :: "string option"
  source :: string

record TrackResponse =
  r_identifier :: string
  r_isSeekable :: bool
  r_author :: string
  r_length :: int
  r_isStream :: bool
  r_position :: int
  r_title :: string
  r_uri :: "string option"
  r_sourceName :: string

definition convertDecodedTrackToResponse :: "'a TrackInfo_scheme \<Rightarrow> TrackResponse" where
  "convertDecodedTrackToResponse data =
     \<lparr> r_identifier = tidentifier data,
       r_isSeekable = (\<not> isStream data),
       r_author = author data,
       r_length = tlength data,
       r_isStream = isStream data,
       r_position = tposition data,
       r_title = title data,
       r_uri = uri data,
       r_sourceName = source data \<rparr>"

text \<open>
  \<open>request.query.track\<close> as express parses it: absent, one item, or an array of items;
  an item is a string or a nested object. The body of a 200 response is the value that is
  handed to \<open>JSON.stringify\<close>. What \<open>Util.standardErrorHandler\<close> answers is not in the
  sources: the result keeps the message it is called with.
\<close>

datatype query_item = QStr string | QObj

datatype query_track = QAbsent | QOne query_item | QMany "query_item list"

datatype decoded_body =
    Single TrackResponse
  | Array "(string \<times> TrackResponse) list"

datatype http_result =
    StandardError string
  | Ok200 decoded_body
  | DecodeThrew

fun is_string_item :: "query_item \<Rightarrow> bool" where
  "is_string_item (QStr s) = True"
| "is_string_item QObj = False"

fun item_string :: "query_item \<Rightarrow> string" where
  "item_string (QStr s) = s"
| "item_string QObj = []"

text \<open>
  \<open>track.map(i => ({ track: i, info: convertDecodedTrackToResponse(encoding.decode(i)) }))\<close>.
  \<open>encoding.decode\<close> belongs to a library and is a parameter; \<open>None\<close> is a throw, which
  ends the handler.
\<close>

fun decode_each ::
  "(string \<Rightarrow> 'a TrackInfo_scheme option) \<Rightarrow> string list \<Rightarrow> (string \<times> TrackResponse) list option"
where
  "decode_each decode [] = Some []"
| "decode_each decode (i # rest) =
     (case decode i of
        None \<Rightarrow> None
      | Some d \<Rightarrow>
          (case decode_each decode rest of
             None \<Rightarrow> None
           | Some more_items \<Rightarrow> Some ((i, convertDecodedTrackToResponse d) # more_items)))"

definition invalid_track_message :: string where
  "invalid_track_message = ''Invalid or no track query string provided.''"

fun decodetracks :: "(string \<Rightarrow> 'a TrackInfo_scheme option) \<Rightarrow> query_track \<Rightarrow> http_result" where
  "decodetracks decode QAbsent = StandardError invalid_track_message"
| "decodetracks decode (QOne QObj) = StandardError invalid_track_message"
| "decodetracks decode (QOne (QStr t)) =
     (if t = [] then StandardError invalid_track_message
      else (case decode t of
              None \<Rightarrow> DecodeThrew
            | Some d \<Rightarrow> Ok200 (Single (convertDecodedTrackToResponse d))))"
| "decodetracks decode (QMany items) =
     (if \<not> list_all is_string_item items then StandardError invalid_track_message
      else (case decode_each decode (map item_string items) of
              None \<Rightarrow> DecodeThrew
            | Some xs \<Rightarrow> Ok200 (Array xs)))"

text \<open>Example input: a decoder that knows two blobs, one of a stream and one of a file.\<close>

definition radio_info :: "bool TrackInfo_scheme" where
  "radio_info =
     \<lparr> tidentifier = ''http://radio.example/live'', author = ''Unknown artist'', tlength = 0,
       isStream = True, tposition = 0, title = ''Live'',
       uri = Some ''http://radio.example/live'', source = ''http'', \<dots> = True \<rparr>"

definition file_info :: "bool TrackInfo_scheme" where
  "file_info =
     \<lparr> tidentifier = ''/tmp/a.ogg'', author = ''Unknown artist'', tlength = 1000,
       isStream = False, tposition = 0, title = ''a'',
       uri = Some ''/tmp/a.ogg'', source = ''local'', \<dots> = False \<rparr>"

definition sample_decode :: "string \<Rightarrow> bool TrackInfo_scheme option" where
  "sample_decode blob =
     (if blob = ''QAAA'' then Some radio_info
      else if blob = ''QBBB'' then Some file_info
      else None)"

subsection \<open>Worker (worker.js): data\<close>

datatype AudioPlayerStatus = Idle | Buffering | Playing | Paused | AutoPaused

text \<open>The object the PLAY handler passes to \<open>Queue.queue\<close>; \<open>t_track\<close> is the encoded blob.\<close>

record Track =
  t_track :: string
  t_start :: int
  t_end :: int
  t_volume :: rat
  t_pause :: bool

text \<open>
  An element of the filter chain \<open>_filters\<close> and of an ffmpeg argument list. \<open>Undefined\<close> is
  the value an out-of-range array read yields (\<open>Queue.filters\<close> can push one).
\<close>

datatype arg = Arg string | Undefined

text \<open>
  What \<open>Discord.createAudioResource\<close> returns, as far as the worker uses it: the blob it was
  made for, the ffmpeg arguments of its transcoder (\<open>None\<close> for a stream that was only
  demux-probed), the playback duration the library counts, and the inline volume.
\<close>

record AudioResource =
  res_track :: string
  res_args :: "arg list option"
  playbackDuration :: int
  res_volume :: rat

datatype TrackEndReason = FINISHED | REPLACED | STOPPED

datatype event =
    TrackStartEvent string
  | TrackEndEvent TrackEndReason

text \<open>The object the \<open>state\<close> getter returns, without its \<open>time\<close> field (the wall clock).\<close>

record PlayerState =
  position :: int
  connected :: bool

datatype out_data =
    EventData string event
  | PlayerUpdateData string PlayerState

datatype reply = ReplyBool bool | ReplyStats nat nat | ReplyCount nat

text \<open>
  What the worker posts to the parent port: \<open>MESSAGE\<close> (client id, data), \<open>REPLY\<close> (data,
  thread id), \<open>VOICE_SERVER\<close> (client id, guild id) and \<open>CLOSE\<close>.
\<close>

datatype worker_msg =
    MESSAGE string out_data
  | REPLY reply nat
  | VOICE_SERVER string string
  | CLOSE

record Queue =
  clientID :: string
  guildID :: string
  track :: "Track option"
  current :: "AudioResource option"
  stopping :: bool
  xfilters :: "arg list"
  xvolume :: rat
  applyingFilters :: bool
  shouldntCallFinish :: bool
  trackPausing :: bool
  initial :: bool
  seekTime :: int
  xdestroyed :: bool
  paused :: bool
  rate :: rat
  player_status :: AudioPlayerStatus
  connection_ready :: bool

text \<open>
  \<open>xfilters\<close>, \<open>xvolume\<close> and \<open>xdestroyed\<close> are the fields \<open>_filters\<close>, \<open>_volume\<close> and
  \<open>_destroyed\<close>. \<open>player_status\<close> is \<open>this.player.state.status\<close> and \<open>connection_ready\<close> is
  \<open>this.connection.state.status === Ready\<close>: both objects belong to the voice library.
\<close>

definition new_Queue :: "string \<Rightarrow> string \<Rightarrow> Queue" where
  "new_Queue cid gid =
     \<lparr> clientID = cid, guildID = gid, track = None, current = None, stopping = False,
       xfilters = [], xvolume = 1, applyingFilters = False, shouldntCallFinish = False,
       trackPausing = False, initial = True, seekTime = 0, xdestroyed = False,
       paused = False, rate = 1, player_status = Idle, connection_ready = False \<rparr>"

definition post_event :: "Queue \<Rightarrow> event \<Rightarrow> worker_msg" where
  "post_event q e = MESSAGE (clientID q) (EventData (guildID q) e)"

subsection \<open>Worker: the player's listener, pause, stop and the state getter\<close>

text \<open>
  The audio player is the voice library's. Its documented behaviour, as the worker relies
  on it: \<open>player.pause(true)\<close> returns false unless the player is playing, and otherwise
  moves it to paused; \<open>player.unpause()\<close> returns false unless it is paused, and otherwise
  moves it to playing; \<open>player.stop(true)\<close> returns false when the player is idle, and
  otherwise moves it to idle; \<open>player.play(resource)\<close> moves it to buffering. Every move
  emits \<open>stateChange\<close> to the queue's listener before the call returns.

  \<open>Queue.pause\<close>: the listener does nothing on a change to paused (see \<open>onPlayerStateChange\<close>
  below), so the emission inside \<open>player.pause\<close> leaves the queue as it is.
\<close>

definition pause :: "Queue \<Rightarrow> Queue" where
  "pause q =
     (if player_status q = Playing
      then q\<lparr>player_status := Paused, paused := True\<rparr>
      else q\<lparr>paused := False\<rparr>)"

text \<open>The listener installed by the constructor: \<open>this.player.on("stateChange", ...)\<close>.\<close>

definition onPlayerStateChange ::
  "AudioPlayerStatus \<Rightarrow> AudioPlayerStatus \<Rightarrow> Queue \<Rightarrow> Queue \<times> worker_msg list"
where
  "onPlayerStateChange oldStatus newStatus q =
     (if newStatus = Idle \<and> oldStatus \<noteq> Idle then
        (q\<lparr>current := None, track := None, stopping := False, shouldntCallFinish := False\<rparr>,
         if \<not> stopping q \<and> \<not> shouldntCallFinish q
         then [post_event q (TrackEndEvent FINISHED)] else [])
      else if newStatus = Playing then
        (let q1 = (if trackPausing q then pause q else q);
             q2 = q1\<lparr>trackPausing := False\<rparr>
         in (q2\<lparr>initial := False\<rparr>,
             (case track q2 of
                Some t \<Rightarrow>
                  if \<not> shouldntCallFinish q2 \<or> initial q2
                  then [post_event q2 (TrackStartEvent (t_track t))] else []
              | None \<Rightarrow> [])))
      else (q, []))"

text \<open>\<open>this.player.stop(true)\<close>, with the emission to the listener.\<close>

definition player_stop :: "Queue \<Rightarrow> Queue \<times> worker_msg list" where
  "player_stop q =
     (if player_status q = Idle then (q, [])
      else onPlayerStateChange (player_status q) Idle (q\<lparr>player_status := Idle\<rparr>))"

definition stop :: "bool \<Rightarrow> Queue \<Rightarrow> Queue \<times> worker_msg list" where
  "stop shouldntPost q =
     (let (q1, posted) = player_stop (q\<lparr>stopping := True\<rparr>)
      in (q1, posted @ (if \<not> shouldntPost then [post_event q1 (TrackEndEvent STOPPED)] else [])))"

text \<open>\<open>Queue.resume\<close>: \<open>this.paused = !this.player.unpause()\<close>.\<close>

definition resume :: "Queue \<Rightarrow> Queue \<times> worker_msg list" where
  "resume q =
     (if player_status q = Paused
      then (let (q1, posted) = onPlayerStateChange Paused Playing (q\<lparr>player_status := Playing\<rparr>)
            in (q1\<lparr>paused := False\<rparr>, posted))
      else (q\<lparr>paused := True\<rparr>, []))"

text \<open>
  The \<open>state\<close> getter (worker.js lines 180-189):
  \<open>Math.floor(((this.current?.playbackDuration || 0) + this.seekTime) * this.rate)\<close>.
\<close>

definition position_ms :: "Queue \<Rightarrow> int" where
  "position_ms q =
     floor (of_int ((case current q of None \<Rightarrow> 0 | Some r \<Rightarrow> playbackDuration r) + seekTime q)
            * rate q)"

definition state :: "Queue \<Rightarrow> PlayerState \<times> Queue \<times> worker_msg list" where
  "state q =
     (let pos = position_ms q;
          (q1, posted) =
             (case track q of
                Some t \<Rightarrow> if t_end t \<noteq> 0 \<and> pos \<ge> t_end t then stop True q else (q, [])
              | None \<Rightarrow> (q, []))
      in (\<lparr> position = pos, connected = connection_ready q1 \<rparr>, q1, posted))"

subsection \<open>Worker: the heartbeat (worker.js lines 52-60)\<close>

text \<open>
  \<open>queues\<close> is a \<open>Map\<close>; the association list keeps its insertion order, which is the order
  \<open>queues.values()\<close> walks. The timer's period (5 s) is not part of the embedding; this is
  what one tick does.
\<close>

type_synonym queues = "(string \<times> Queue) list"

definition report_queue :: "Queue \<Rightarrow> Queue \<times> worker_msg list" where
  "report_queue q =
     (let (st, q1, posted) = state q
      in (q1, posted @ (if \<not> paused q1
                        then [MESSAGE (clientID q1) (PlayerUpdateData (guildID q1) st)]
                        else [])))"

fun reportInterval :: "queues \<Rightarrow> queues \<times> worker_msg list" where
  "reportInterval [] = ([], [])"
| "reportInterval ((k, q) # rest) =
     (let (q1, posted) = report_queue q;
          (rest1, posted_rest) = reportInterval rest
      in ((k, q1) # rest1, posted @ posted_rest))"

subsection \<open>Worker: what the queue takes from outside\<close>

text \<open>
  \<open>lib_decode\<close> is \<open>encoding.decode\<close> (\<open>None\<close>: it throws); the four flags are
  \<open>config.lavalink.server.sources\<close>; \<open>num_str\<close> is the conversion of a number to a string
  that a template literal performs; \<open>gain_str g\<close> is the string of
  \<open>Math.round(Math.log2(g) * 12)\<close>.
\<close>

record Deps =
  lib_decode :: "string \<Rightarrow> TrackInfo option"
  cfg_youtube :: bool
  cfg_soundcloud :: bool
  cfg_local :: bool
  cfg_http :: bool
  num_str :: "rat \<Rightarrow> string"
  gain_str :: "rat \<Rightarrow> string"

text \<open>Decimal digits of an integer: what a template literal prints for an integer number.\<close>

fun show_nat :: "nat \<Rightarrow> string" where
  "show_nat n =
     (if n < 10 then [''0123456789'' ! n]
      else show_nat (n div 10) @ [''0123456789'' ! (n mod 10)])"

declare show_nat.simps [simp del]

definition show_int :: "int \<Rightarrow> string" where
  "show_int i = (if i < 0 then CHR ''-'' # show_nat (nat (- i)) else show_nat (nat i))"

subsection \<open>Arrays\<close>

text \<open>
  \<open>indexOf\<close> returns the first index, \<open>None\<close> where JavaScript returns -1;
  \<open>splice i n\<close> removes \<open>n\<close> elements from index \<open>i\<close>; \<open>slice i j\<close> copies the elements
  from \<open>i\<close> up to \<open>j\<close>; an out-of-range read is \<open>Undefined\<close>.
\<close>

fun indexOf :: "'a list \<Rightarrow> 'a \<Rightarrow> nat option" where
  "indexOf [] x = None"
| "indexOf (y # ys) x = (if y = x then Some 0 else map_option Suc (indexOf ys x))"

definition splice :: "nat \<Rightarrow> nat \<Rightarrow> 'a list \<Rightarrow> 'a list" where
  "splice i n xs = take i xs @ drop (i + n) xs"

definition slice :: "nat \<Rightarrow> nat \<Rightarrow> 'a list \<Rightarrow> 'a list" where
  "slice i j xs = take (j - i) (drop i xs)"

definition element_at :: "arg list \<Rightarrow> nat \<Rightarrow> arg" where
  "element_at xs i = (if i < length xs then xs ! i else Undefined)"

fun join_comma :: "string list \<Rightarrow> string" where
  "join_comma [] = []"
| "join_comma [x] = x"
| "join_comma (x # y # rest) = x @ '','' @ join_comma (y # rest)"

subsection \<open>Worker: play() (worker.js lines 197-324)\<close>

text \<open>
  \<open>play()\<close> is an async function; the embedding cuts it where it can be suspended. A phase
  says where a call stands:
  \<^item> \<open>Returned\<close>: it returned (no track, no uri, a disabled source: the rejection is caught
    and logged, and the function returns at line 297);
  \<^item> \<open>Fetching\<close>: it awaits the source stream (youtube, soundcloud, http);
  \<^item> \<open>Probing\<close>: \<open>demux\<close> awaits \<open>demuxProbe\<close> (no filters and no start mark);
  \<^item> \<open>Built\<close>: \<open>demux\<close> has resolved the promise with the new resource, and line 296 runs
    next.
\<close>

datatype play_phase =
    Returned
  | Fetching Track TrackInfo
  | Probing Track TrackInfo
  | Built Track AudioResource

definition base_args :: "arg list" where
  "base_args =
     map Arg [''-i'', ''-'', ''-analyzeduration'', ''0'', ''-loglevel'', ''0'', ''-f'', ''s16le'',
              ''-acodec'', ''libopus'', ''-f'', ''opus'', ''-ar'', ''48000'', ''-ac'', ''2'']"

definition seek_args :: "int \<Rightarrow> arg list" where
  "seek_args ms = [Arg ''-ss'', Arg (show_int ms @ ''ms''), Arg ''-accurate_seek'']"

text \<open>Lines 226-231: the end of the transcoding branch of \<open>demux\<close>.\<close>

definition finish_demux ::
  "Track \<Rightarrow> arg list \<Rightarrow> Queue \<Rightarrow> worker_msg list \<Rightarrow> Queue \<times> play_phase \<times> worker_msg list"
where
  "finish_demux meta toApply q posted =
     (let toApply1 = (if xfilters q \<noteq> [] then toApply @ [Arg ''-af''] else toApply);
          argus = toApply1 @ xfilters q
      in (q\<lparr>applyingFilters := False\<rparr>,
          Built meta \<lparr> res_track = t_track meta, res_args = Some argus, playbackDuration = 0,
                       res_volume = 1 \<rparr>,
          posted))"

text \<open>
  \<open>demux\<close> (lines 206-244), once there is a stream. The three-way test of lines 213-225
  is written as a case on \<open>indexOf("-ss")\<close>: the first branch is taken when the position
  is nonzero and the chain has no \<open>-ss\<close>, the second when the chain has one, the third
  when neither holds and the track has a start mark. Every \<open>this.state\<close> is an evaluation
  of the getter. The transcoder's constructor is taken not to throw (ffmpeg is there).
\<close>

definition demux :: "Track \<Rightarrow> TrackInfo \<Rightarrow> Queue \<Rightarrow> Queue \<times> play_phase \<times> worker_msg list" where
  "demux meta decoded q =
     (if xfilters q \<noteq> [] \<or> t_start meta \<noteq> 0 then
        (let q1 = q\<lparr>shouldntCallFinish := True\<rparr>;
             (st1, q2, m1) = state q1
         in (case indexOf (xfilters q2) (Arg ''-ss'') of
               None \<Rightarrow>
                 if position st1 \<noteq> 0 then
                   (let (st2, q3, m2) = state q2;
                        toApply = seek_args (position st2 + 2000) @ base_args;
                        (st3, q4, m3) = state q3;
                        q5 = q4\<lparr>seekTime := position st3 + 2000\<rparr>
                    in finish_demux meta toApply q5 (m1 @ m2 @ m3))
                 else if t_start meta \<noteq> 0 then
                   finish_demux meta (seek_args (t_start meta) @ base_args)
                     (q2\<lparr>seekTime := t_start meta\<rparr>) m1
                 else finish_demux meta base_args q2 m1
             | Some index \<Rightarrow>
                 finish_demux meta (slice index (index + 2) (xfilters q2) @ base_args)
                   (q2\<lparr>xfilters := splice index 3 (xfilters q2)\<rparr>) m1))
      else (q, Probing meta decoded, []))"

text \<open>
  \<open>play()\<close> from its call to its first suspension. Only a local file has its stream at
  once (\<open>fs.createReadStream\<close>), so only there \<open>demux\<close> runs inside the call.
\<close>

definition play_sync :: "Deps \<Rightarrow> Queue \<Rightarrow> Queue \<times> play_phase \<times> worker_msg list" where
  "play_sync D q =
     (case track q of
        None \<Rightarrow> (q, Returned, [])
      | Some meta \<Rightarrow>
          (case lib_decode D (t_track meta) of
             None \<Rightarrow> (q, Returned, [])
           | Some decoded \<Rightarrow>
               if uri decoded = None \<or> uri decoded = Some [] then (q, Returned, [])
               else if source decoded = ''youtube'' then
                 (if \<not> cfg_youtube D then (q, Returned, []) else (q, Fetching meta decoded, []))
               else if source decoded = ''soundcloud'' then
                 (if \<not> cfg_soundcloud D then (q, Returned, []) else (q, Fetching meta decoded, []))
               else if source decoded = ''local'' then
                 (if \<not> cfg_local D then (q, Returned, []) else demux meta decoded q)
               else
                 (if \<not> cfg_http D then (q, Returned, []) else (q, Fetching meta decoded, []))))"

text \<open>\<open>Queue.volume\<close> (lines 363-366).\<close>

definition volume :: "rat \<Rightarrow> Queue \<Rightarrow> Queue" where
  "volume amount q =
     q\<lparr>xvolume := amount, current := map_option (\<lambda>r. r\<lparr>res_volume := amount\<rparr>) (current q)\<rparr>"

text \<open>\<open>this.player.play(resource)\<close>, with the emission to the listener.\<close>

definition player_play :: "Queue \<Rightarrow> Queue \<times> worker_msg list" where
  "player_play q = onPlayerStateChange (player_status q) Buffering (q\<lparr>player_status := Buffering\<rparr>)"

text \<open>
  \<open>play()\<close> from line 296, where it has its resource, to its next suspension (the wait for
  the player to enter Playing, line 310). It either destroys the resource's stream and
  returns, or hands the resource to the player.
\<close>

datatype resume_result = Destroyed AudioResource | Started

definition play_resume ::
  "Track \<Rightarrow> AudioResource \<Rightarrow> Queue \<Rightarrow> Queue \<times> resume_result \<times> worker_msg list"
where
  "play_resume meta resource q =
     (if applyingFilters q then (q, Destroyed resource, [])
      else
        (let q1 = q\<lparr>current := Some resource\<rparr>;
             q2 = (if t_pause meta then q1\<lparr>trackPausing := True\<rparr> else q1);
             (q3, posted) = player_play q2;
             q4 = (if t_volume meta \<noteq> 0 \<and> t_volume meta \<noteq> 100 then volume (t_volume meta / 100) q3
                   else if xvolume q3 \<noteq> 1 then volume (xvolume q3) q3
                   else q3)
         in (q4, Started, posted)))"

subsection \<open>Worker: seek, filters, ffmpeg (worker.js lines 367-422)\<close>

datatype js_error = TypeError

text \<open>
  What a call of one of the three did: the queue it leaves, the phase of the \<open>play()\<close> it
  called (\<open>None\<close>: it called none), what was posted, and the exception it threw, if any.
\<close>

record Outcome =
  o_queue :: Queue
  o_launched :: "play_phase option"
  o_posted :: "worker_msg list"
  o_thrown :: "js_error option"

text \<open>
  The tail the three share:
  \<open>if (!this.applyingFilters) this.play().catch(logEr); this.applyingFilters = true;\<close>
\<close>

definition rearm :: "Deps \<Rightarrow> Queue \<Rightarrow> Outcome" where
  "rearm D q =
     (if \<not> applyingFilters q then
        (let (q1, phase, posted) = play_sync D q
         in \<lparr> o_queue = q1\<lparr>applyingFilters := True\<rparr>, o_launched = Some phase,
              o_posted = posted, o_thrown = None \<rparr>)
      else \<lparr> o_queue = q\<lparr>applyingFilters := True\<rparr>, o_launched = None, o_posted = [],
             o_thrown = None \<rparr>)"

text \<open>Lines 368-371 of \<open>seek\<close>, on the chain. \<open>amount || 0\<close> is \<open>amount\<close> for an integer.\<close>

definition seek_chain :: "int \<Rightarrow> arg list \<Rightarrow> arg list" where
  "seek_chain amount chain =
     (case indexOf chain (Arg ''-ss'') of
        None \<Rightarrow> chain
      | Some previousIndex \<Rightarrow> splice previousIndex 2 chain)
     @ [Arg ''-ss'', Arg (show_int (if amount = 0 then 0 else amount) @ ''ms''),
        Arg ''-accurate_seek'']"

definition seek :: "Deps \<Rightarrow> int \<Rightarrow> Queue \<Rightarrow> Outcome" where
  "seek D amount q =
     (let r = rearm D (q\<lparr>xfilters := seek_chain amount (xfilters q)\<rparr>)
      in r\<lparr>o_queue := (o_queue r)\<lparr>seekTime := amount\<rparr>\<rparr>)"

definition ffmpeg :: "Deps \<Rightarrow> string list \<Rightarrow> Queue \<Rightarrow> Outcome" where
  "ffmpeg D args q = rearm D (q\<lparr>xfilters := map Arg args\<rparr>)"

subsection \<open>Worker: Queue.filters (worker.js lines 377-415)\<close>

text \<open>
  The FILTERS payload. A field that is absent is \<open>None\<close>; \<open>f_equalizer\<close> is \<open>None\<close> also
  when the payload's \<open>equalizer\<close> is not an array.
\<close>

record Band =
  band :: int
  gain :: rat

record Timescale =
  ts_rate :: "rat option"
  ts_pitch :: "rat option"
  ts_speed :: "rat option"

record Oscillation =
  frequency :: "rat option"
  depth :: "rat option"

record FilterSpec =
  f_volume :: "rat option"
  f_equalizer :: "Band list option"
  f_timescale :: "Timescale option"
  f_tremolo :: "Oscillation option"
  f_vibrato :: "Oscillation option"
  f_rotation :: "rat option option"
  f_lowPass :: "rat option option"

text \<open>
  \<open>f_rotation\<close> and \<open>f_lowPass\<close>: the outer option is the object (\<open>rotation\<close>, \<open>lowPass\<close>),
  the inner one its only field (\<open>rotationHz\<close>, \<open>smoothing\<close>).

  \<open>x || d\<close> for a number that may be absent: \<open>d\<close> when \<open>x\<close> is absent or zero.
\<close>

definition num_or :: "rat option \<Rightarrow> rat \<Rightarrow> rat" where
  "num_or x d = (case x of None \<Rightarrow> d | Some v \<Rightarrow> if v = 0 then d else v)"

text \<open>
  \<open>Array(15).map((_, index) => ({ band: index, gain: 0.2 }))\<close>: \<open>Array(15)\<close> has length 15
  and no elements, and \<open>map\<close> skips what is not there, so the result is again 15 empty
  slots. A slot is \<open>None\<close>.
\<close>

definition bandSettings0 :: "Band option list" where
  "bandSettings0 = replicate 15 None"

text \<open>
  \<open>bandSettings.find(i => i.band === eq.band)\<close>, returning the index of what it finds.
  \<open>find\<close> visits an empty slot as \<open>undefined\<close>, and reading \<open>.band\<close> of it throws.
\<close>

fun find_band :: "Band option list \<Rightarrow> int \<Rightarrow> js_error + nat option" where
  "find_band [] b = Inr None"
| "find_band (None # rest) b = Inl TypeError"
| "find_band (Some i # rest) b =
     (if band i = b then Inr (Some 0)
      else (case find_band rest b of
              Inl e \<Rightarrow> Inl e
            | Inr None \<Rightarrow> Inr None
            | Inr (Some n) \<Rightarrow> Inr (Some (Suc n))))"

text \<open>The loop of lines 386-390.\<close>

fun set_gains :: "Band option list \<Rightarrow> Band list \<Rightarrow> js_error + Band option list" where
  "set_gains bandSettings [] = Inr bandSettings"
| "set_gains bandSettings (eq # rest) =
     (case find_band bandSettings (band eq) of
        Inl e \<Rightarrow> Inl e
      | Inr None \<Rightarrow> set_gains bandSettings rest
      | Inr (Some n) \<Rightarrow>
          set_gains
            (bandSettings[n := map_option (\<lambda>cur. cur\<lparr>gain := gain eq\<rparr>) (bandSettings ! n)])
            rest)"

text \<open>
  Line 391: \<open>map\<close> again skips the empty slots and \<open>join\<close> writes an empty string for
  each of them.
\<close>

definition band_expr :: "Deps \<Rightarrow> Band \<Rightarrow> string" where
  "band_expr D i = ''equalizer=width_type=h:gain='' @ gain_str D (gain i)"

definition equalizer_expr :: "Deps \<Rightarrow> Band option list \<Rightarrow> string" where
  "equalizer_expr D bandSettings =
     join_comma (map (\<lambda>slot. case slot of None \<Rightarrow> [] | Some i \<Rightarrow> band_expr D i) bandSettings)"

text \<open>Lines 384-392: what the equalizer adds to \<open>toApply\<close>, or the exception.\<close>

definition equalizer_part :: "Deps \<Rightarrow> FilterSpec \<Rightarrow> js_error + arg list" where
  "equalizer_part D spec =
     (case f_equalizer spec of
        None \<Rightarrow> Inr []
      | Some eqs \<Rightarrow>
          if eqs = [] then Inr []
          else (case set_gains bandSettings0 eqs of
                  Inl e \<Rightarrow> Inl e
                | Inr bandSettings \<Rightarrow> Inr [Arg (equalizer_expr D bandSettings)]))"

text \<open>Lines 393-402: the timescale string, and the rate it stores in the queue.\<close>

definition timescale_expr :: "Deps \<Rightarrow> Timescale \<Rightarrow> string" where
  "timescale_expr D ts =
     (let r = num_or (ts_rate ts) 1;
          pitch = num_or (ts_pitch ts) 1;
          speed = num_or (ts_speed ts) 1;
          speeddif = 1 - pitch;
          finalspeed = speed + speeddif;
          ratedif = 1 - r
      in ''aresample=48000,asetrate=48000*'' @ num_str D (pitch + ratedif)
         @ '',atempo='' @ num_str D finalspeed @ '',aresample=48000'')"

definition timescale_part :: "Deps \<Rightarrow> FilterSpec \<Rightarrow> Queue \<Rightarrow> Queue \<times> arg list" where
  "timescale_part D spec q =
     (case f_timescale spec of
        None \<Rightarrow> (q, [])
      | Some ts \<Rightarrow> (q\<lparr>rate := num_or (ts_speed ts) 1\<rparr>, [Arg (timescale_expr D ts)]))"

text \<open>Lines 403-410. \<open>500 / smoothing\<close> is NaN without a smoothing and Infinity for zero.\<close>

definition oscillation_expr :: "Deps \<Rightarrow> string \<Rightarrow> Oscillation \<Rightarrow> string" where
  "oscillation_expr D name osc =
     name @ ''=f='' @ num_str D (num_or (frequency osc) 2)
          @ '':d='' @ num_str D (num_or (depth osc) (1 / 2))"

definition lowpass_expr :: "Deps \<Rightarrow> rat option \<Rightarrow> string" where
  "lowpass_expr D smoothing =
     ''lowpass=f='' @ (case smoothing of
                        None \<Rightarrow> ''NaN''
                      | Some v \<Rightarrow> if v = 0 then ''Infinity'' else num_str D (500 / v))"

definition tail_part :: "Deps \<Rightarrow> FilterSpec \<Rightarrow> arg list" where
  "tail_part D spec =
     (case f_tremolo spec of None \<Rightarrow> [] | Some osc \<Rightarrow> [Arg (oscillation_expr D ''tremolo'' osc)])
     @ (case f_vibrato spec of None \<Rightarrow> [] | Some osc \<Rightarrow> [Arg (oscillation_expr D ''vibrato'' osc)])
     @ (case f_rotation spec of
          None \<Rightarrow> []
        | Some hz \<Rightarrow> [Arg (''apulsator=hz='' @ num_str D (num_or hz 0))])
     @ (case f_lowPass spec of None \<Rightarrow> [] | Some smoothing \<Rightarrow> [Arg (lowpass_expr D smoothing)])"

text \<open>Lines 378-383: the kept \<open>-ss\<close> (with the element two places after it) and the volume.\<close>

definition head_part :: "Deps \<Rightarrow> FilterSpec \<Rightarrow> arg list \<Rightarrow> arg list" where
  "head_part D spec chain =
     (case indexOf chain (Arg ''-ss'') of
        None \<Rightarrow> []
      | Some n \<Rightarrow> [Arg ''-ss'', element_at chain (n + 2)])
     @ (case f_volume spec of
          None \<Rightarrow> []
        | Some v \<Rightarrow> if v = 0 then [] else [Arg (''volume='' @ num_str D v)])"

text \<open>
  \<open>Queue.filters\<close>. The chain is emptied at line 381, before anything can throw; an
  exception leaves the queue there, with nothing pushed and \<open>play()\<close> not called.
\<close>

definition filters :: "Deps \<Rightarrow> FilterSpec \<Rightarrow> Queue \<Rightarrow> Outcome" where
  "filters D spec q =
     (let toApply = head_part D spec (xfilters q);
          q1 = q\<lparr>xfilters := []\<rparr>
      in (case equalizer_part D spec of
            Inl e \<Rightarrow> \<lparr> o_queue = q1, o_launched = None, o_posted = [], o_thrown = Some e \<rparr>
          | Inr eq_args \<Rightarrow>
              (let (q2, ts_args) = timescale_part D spec q1;
                   toApply1 = toApply @ eq_args @ ts_args @ tail_part D spec
               in rearm D (q2\<lparr>xfilters := xfilters q2 @ toApply1\<rparr>))))"

subsection \<open>Worker: queue, replace, nextSong (worker.js lines 190-196, 325-335)\<close>

definition nextSong :: "Deps \<Rightarrow> Queue \<Rightarrow> Outcome" where
  "nextSong D q =
     (let q1 = q\<lparr>seekTime := 0, initial := True\<rparr>
      in (case track q1 of
            None \<Rightarrow> \<lparr> o_queue = q1, o_launched = None, o_posted = [], o_thrown = None \<rparr>
          | Some t \<Rightarrow>
              (let (q2, phase, posted) = play_sync D q1
               in \<lparr> o_queue = q2, o_launched = Some phase, o_posted = posted,
                    o_thrown = None \<rparr>)))"

definition replace :: "Deps \<Rightarrow> Queue \<Rightarrow> Outcome" where
  "replace D q =
     (let (q1, posted) =
            (if player_status q = Playing
             then (let (q', m) = stop True q in (q', m @ [post_event q' (TrackEndEvent REPLACED)]))
             else (q, []));
          r = nextSong D q1
      in r\<lparr>o_posted := posted @ o_posted r\<rparr>)"

definition queue :: "Deps \<Rightarrow> Track \<Rightarrow> Queue \<Rightarrow> Outcome" where
  "queue D t q = replace D (q\<lparr>track := Some t\<rparr>)"

subsection \<open>Worker: the message handler (worker.js lines 424-488)\<close>

text \<open>
  A \<open>MESSAGE\<close> packet, for the operations embedded here: PLAY (with the track object the
  handler builds from the payload, and whether \<open>noReplace === true\<close>), SEEK, FILTERS and
  FFMPEG. \<open>p_broadcasted\<close> and \<open>p_threadID\<close> are set by the pool.
\<close>

datatype op_data =
    PLAY Track bool
  | SEEK int
  | FILTERS FilterSpec
  | FFMPEG "string list"

record Packet =
  p_clientID :: string
  p_guildId :: string
  p_broadcasted :: bool
  p_threadID :: nat
  p_data :: op_data

definition queue_key :: "string \<Rightarrow> string \<Rightarrow> string" where
  "queue_key userID guildId = userID @ ''.'' @ guildId"

text \<open>\<open>Map.set\<close> on the association list: a known key keeps its place, a new one goes last.\<close>

fun map_set :: "'k \<Rightarrow> 'v \<Rightarrow> ('k \<times> 'v) list \<Rightarrow> ('k \<times> 'v) list" where
  "map_set k v [] = [(k, v)]"
| "map_set k v ((k', v') # rest) =
     (if k' = k then (k, v) # rest else (k', v') # map_set k v rest)"

record Handled =
  h_queues :: queues
  h_posted :: "worker_msg list"
  h_launched :: "play_phase option"
  h_thrown :: "js_error option"

text \<open>\<open>queues.get(key)?.method(...)\<close>: nothing happens without a queue for the key.\<close>

definition on_queue :: "string \<Rightarrow> (Queue \<Rightarrow> Outcome) \<Rightarrow> queues \<Rightarrow> Handled" where
  "on_queue key method qs =
     (case map_of qs key of
        None \<Rightarrow> \<lparr> h_queues = qs, h_posted = [], h_launched = None, h_thrown = None \<rparr>
      | Some q \<Rightarrow>
          (let r = method q
           in \<lparr> h_queues = map_set key (o_queue r) qs, h_posted = o_posted r,
                h_launched = o_launched r, h_thrown = o_thrown r \<rparr>))"

definition onMessage :: "Deps \<Rightarrow> Packet \<Rightarrow> queues \<Rightarrow> Handled" where
  "onMessage D packet qs =
     (let guildId = p_guildId packet;
          userID = p_clientID packet;
          key = queue_key userID guildId
      in (case p_data packet of
            PLAY t noReplace \<Rightarrow>
              (case map_of qs key of
                 None \<Rightarrow>
                   if p_broadcasted packet then
                     \<lparr> h_queues = qs, h_posted = [REPLY (ReplyBool False) (p_threadID packet)],
                       h_launched = None, h_thrown = None \<rparr>
                   else
                     (let r = queue D t (new_Queue userID guildId)
                      in \<lparr> h_queues = map_set key (o_queue r) qs,
                           h_posted = VOICE_SERVER userID guildId # o_posted r,
                           h_launched = o_launched r, h_thrown = None \<rparr>)
               | Some q \<Rightarrow>
                   (let replied = (if p_broadcasted packet
                                   then [REPLY (ReplyBool True) (p_threadID packet)] else [])
                    in if noReplace \<and> player_status q = Playing then
                         \<lparr> h_queues = qs, h_posted = replied, h_launched = None,
                           h_thrown = None \<rparr>
                       else
                         (let r = queue D t q
                          in \<lparr> h_queues = map_set key (o_queue r) qs,
                               h_posted = replied @ o_posted r,
                               h_launched = o_launched r, h_thrown = None \<rparr>)))
          | SEEK pos \<Rightarrow> on_queue key (seek D pos) qs
          | FILTERS spec \<Rightarrow> on_queue key (filters D spec) qs
          | FFMPEG args \<Rightarrow> on_queue key (ffmpeg D args) qs))"

subsection \<open>The thread pool\<close>






subsection \<open>Gateway (index.ts): state\<close>

text \<open>
  A socket is named by a number. \<open>sent g s\<close> is what was handed to \<open>s.send\<close>, in order;
  a frame is the payload itself (\<open>JSON.stringify\<close> of it is what goes on the wire).
  \<open>timers g\<close> are the handles of the timeouts that are set and not cleared.
  \<open>connections\<close> is a \<open>Map\<close> whose values are walked in insertion order, hence a list.
\<close>

record Conn =
  socket :: nat
  resumeKey :: "string option"
  resumeTimeout :: nat

record ResumeBuffer =
  timeout :: nat
  events :: "out_data list"

record Gateway =
  connections :: "(string \<times> Conn list) list"
  socketDeleteTimeouts :: "string \<rightharpoonup> ResumeBuffer"
  playerMap :: "string \<rightharpoonup> nat"
  sent :: "nat \<Rightarrow> out_data list"
  timers :: "nat list"

fun data_guildId :: "out_data \<Rightarrow> string" where
  "data_guildId (EventData g e) = g"
| "data_guildId (PlayerUpdateData g st) = g"

definition send :: "nat \<Rightarrow> out_data \<Rightarrow> Gateway \<Rightarrow> Gateway" where
  "send s frame g = g\<lparr>sent := (sent g)(s := sent g s @ [frame])\<rparr>"

subsection \<open>Gateway: outbound events (index.ts lines 75-82)\<close>

text \<open>
  \<open>pool.on("message", ...)\<close> for a message \<open>{clientID, data}\<close> of a worker.
  \<open>entry?.find((c) => c.socket)\<close> takes the first connection of the entry: a socket is an
  object, hence truthy. A resume key is truthy when it is there and not empty.
\<close>

definition active_buffer_key :: "Conn option \<Rightarrow> Gateway \<Rightarrow> string option" where
  "active_buffer_key rKey g =
     (case rKey of
        None \<Rightarrow> None
      | Some c \<Rightarrow>
          (case resumeKey c of
             None \<Rightarrow> None
           | Some k \<Rightarrow> if k \<noteq> [] \<and> socketDeleteTimeouts g k \<noteq> None then Some k else None))"

definition push_event :: "string \<Rightarrow> out_data \<Rightarrow> Gateway \<Rightarrow> Gateway" where
  "push_event k d g =
     (case socketDeleteTimeouts g k of
        None \<Rightarrow> g
      | Some buf \<Rightarrow> g\<lparr>socketDeleteTimeouts := (socketDeleteTimeouts g)(k \<mapsto> buf\<lparr>events := events buf @ [d]\<rparr>)\<rparr>)"

definition on_pool_message :: "string \<Rightarrow> out_data \<Rightarrow> Gateway \<Rightarrow> Gateway" where
  "on_pool_message msg_clientID msg_data g =
     (let sock = playerMap g (queue_key msg_clientID (data_guildId msg_data));
          entry = (case sock of
                     None \<Rightarrow> None
                   | Some s \<Rightarrow> find (\<lambda>i. list_ex (\<lambda>c. socket c = s) i) (map snd (connections g)));
          rKey = (case entry of None \<Rightarrow> None | Some i \<Rightarrow> find (\<lambda>c. True) i);
          g1 = (case active_buffer_key rKey g of None \<Rightarrow> g | Some k \<Rightarrow> push_event k msg_data g)
      in (case sock of None \<Rightarrow> g1 | Some s \<Rightarrow> send s msg_data g1))"

subsection \<open>Gateway: the PLAY command (index.ts lines 203-215)\<close>




subsection \<open>Gateway: configureResuming and close (index.ts lines 235-246, 259-301)\<close>

fun update_first :: "('a \<Rightarrow> bool) \<Rightarrow> ('a \<Rightarrow> 'a) \<Rightarrow> 'a list \<Rightarrow> 'a list" where
  "update_first P f [] = []"
| "update_first P f (x # xs) = (if P x then f x # xs else x # update_first P f xs)"

fun remove_first :: "('a \<Rightarrow> bool) \<Rightarrow> 'a list \<Rightarrow> 'a list" where
  "remove_first P [] = []"
| "remove_first P (x # xs) = (if P x then xs else x # remove_first P xs)"

text \<open>
  \<open>entry!.find(...)\<close> throws when the user has no entry in \<open>connections\<close>. The timeout
  \<open>msg.timeout || 60\<close> is 60 when absent or zero.
\<close>

definition configureResuming ::
  "nat \<Rightarrow> string \<Rightarrow> string \<Rightarrow> nat option \<Rightarrow> Gateway \<Rightarrow> js_error + Gateway"
where
  "configureResuming sock userID key tmo g =
     (if key = [] then Inr g
      else (case map_of (connections g) userID of
              None \<Rightarrow> Inl TypeError
            | Some entry \<Rightarrow>
                Inr (g\<lparr>connections :=
                       map_set userID
                         (update_first (\<lambda>i. socket i = sock)
                            (\<lambda>found. found\<lparr>resumeKey := Some key,
                                            resumeTimeout := (case tmo of None \<Rightarrow> 60
                                                              | Some n \<Rightarrow> if n = 0 then 60 else n)\<rparr>)
                            entry)
                         (connections g)\<rparr>)))"

text \<open>
  \<open>onClientClose\<close>, as far as the gateway's maps go. \<open>timer\<close> is the handle \<open>setTimeout\<close>
  returns. The result says whether DELETE_ALL is broadcast at once. The clean-up of the
  voice server states and the body of the expiry timer are not part of the embedding.
\<close>

definition delete_key :: "'k \<Rightarrow> ('k \<times> 'v) list \<Rightarrow> ('k \<times> 'v) list" where
  "delete_key k xs = filter (\<lambda>kv. fst kv \<noteq> k) xs"

definition onClientClose :: "nat \<Rightarrow> string \<Rightarrow> nat \<Rightarrow> Gateway \<Rightarrow> js_error + (Gateway \<times> bool)" where
  "onClientClose sock userID timer g =
     (case map_of (connections g) userID of
        None \<Rightarrow> Inl TypeError
      | Some entry \<Rightarrow>
          (case find (\<lambda>i. socket i = sock) entry of
             None \<Rightarrow> Inr (g, False)
           | Some found \<Rightarrow>
               (case resumeKey found of
                  Some k \<Rightarrow>
                    if k \<noteq> [] then
                      Inr (g\<lparr>timers := timers g @ [timer],
                             socketDeleteTimeouts :=
                               (socketDeleteTimeouts g)(k \<mapsto> \<lparr> timeout = timer, events = [] \<rparr>)\<rparr>,
                           False)
                    else
                      (let entry1 = remove_first (\<lambda>i. socket i = sock) entry
                       in Inr (g\<lparr>connections :=
                                   (if entry1 = [] then delete_key userID (connections g)
                                    else map_set userID entry1 (connections g))\<rparr>, True))
                | None \<Rightarrow>
                    (let entry1 = remove_first (\<lambda>i. socket i = sock) entry
                     in Inr (g\<lparr>connections :=
                                 (if entry1 = [] then delete_key userID (connections g)
                                  else map_set userID entry1 (connections g))\<rparr>, True)))))"

subsection \<open>Gateway: the upgrade (index.ts lines 127-176)\<close>

text \<open>
  The headers of the upgrade request that the gateway reads. \<open>password\<close> below is
  \<open>config.lavalink.server.password\<close>.
\<close>

record UpgradeRequest =
  hdr_authorization :: "string option"
  hdr_user_id :: "string option"
  hdr_resume_key :: "string option"

definition passwordIncorrect :: "string option \<Rightarrow> UpgradeRequest \<Rightarrow> bool" where
  "passwordIncorrect password request =
     (case password of None \<Rightarrow> False | Some pw \<Rightarrow> hdr_authorization request \<noteq> Some pw)"

definition invalidUserID :: "UpgradeRequest \<Rightarrow> bool" where
  "invalidUserID request =
     (case hdr_user_id request of
        None \<Rightarrow> True
      | Some u \<Rightarrow> u = [] \<or> \<not> list_all (\<lambda>c. c \<in> set ''0123456789'') u)"

text \<open>
  The condition both the \<open>headers\<close> listener and the callback of \<open>handleUpgrade\<close> test:
  \<open>request.headers["resume-key"] && socketDeleteTimeouts.has(...)\<close>.
\<close>

definition resumable :: "UpgradeRequest \<Rightarrow> Gateway \<Rightarrow> (string \<times> ResumeBuffer) option" where
  "resumable request g =
     (case hdr_resume_key request of
        None \<Rightarrow> None
      | Some k \<Rightarrow>
          if k = [] then None
          else (case socketDeleteTimeouts g k of None \<Rightarrow> None | Some buf \<Rightarrow> Some (k, buf)))"

text \<open>\<open>ws.on("headers", ...)\<close>: the three header lines the listener adds to the response.\<close>

definition headers_listener :: "UpgradeRequest \<Rightarrow> Gateway \<Rightarrow> string list" where
  "headers_listener request g =
     [''Session-Resumed: '' @ (if resumable request g \<noteq> None then ''true'' else ''false''),
      ''Lavalink-Major-Version: 3'', ''Is-Volcano: true'']"

definition new_conn :: "nat \<Rightarrow> Conn" where
  "new_conn s = \<lparr> socket = s, resumeKey = None, resumeTimeout = 60 \<rparr>"

fun send_all :: "nat \<Rightarrow> out_data list \<Rightarrow> Gateway \<Rightarrow> Gateway" where
  "send_all s [] g = g"
| "send_all s (event # rest) g = send_all s rest (send s event g)"

text \<open>The callback given to \<open>ws.handleUpgrade\<close>, with the new socket \<open>s\<close> (lines 146-175).\<close>

definition upgrade_callback :: "string \<Rightarrow> UpgradeRequest \<Rightarrow> nat \<Rightarrow> Gateway \<Rightarrow> Gateway" where
  "upgrade_callback userID request s g =
     (case resumable request g of
        Some (k, buf) \<Rightarrow>
          (let g1 = g\<lparr>timers := removeAll (timeout buf) (timers g),
                      socketDeleteTimeouts := (socketDeleteTimeouts g)(k := None)\<rparr>;
               conns =
                 (case map_of (connections g1) userID of
                    Some exist \<Rightarrow>
                      map_set userID
                        (if list_ex (\<lambda>i. resumeKey i = Some k) exist
                         then update_first (\<lambda>i. resumeKey i = Some k) (\<lambda>pre. pre\<lparr>socket := s\<rparr>) exist
                         else exist @ [new_conn s])
                        (connections g1)
                  | None \<Rightarrow> map_set userID [new_conn s] (connections g1))
           in send_all s (events buf) (g1\<lparr>connections := conns\<rparr>))
      | None \<Rightarrow>
          g\<lparr>connections :=
              (case map_of (connections g) userID of
                 Some existing \<Rightarrow> map_set userID (existing @ [new_conn s]) (connections g)
               | None \<Rightarrow> map_set userID [new_conn s] (connections g))\<rparr>)"

text \<open>
  \<open>http.on("upgrade", ...)\<close>. The websocket library's \<open>handleUpgrade\<close> emits \<open>headers\<close>
  before it calls the callback, so the listener sees the maps as they were before it.
\<close>

datatype upgrade_result = Unauthorized401 | Upgraded "string list"

definition on_upgrade ::
  "string option \<Rightarrow> UpgradeRequest \<Rightarrow> nat \<Rightarrow> Gateway \<Rightarrow> upgrade_result \<times> Gateway"
where
  "on_upgrade password request s g =
     (if passwordIncorrect password request \<or> invalidUserID request then (Unauthorized401, g)
      else (case hdr_user_id request of
              None \<Rightarrow> (Unauthorized401, g)
            | Some userID \<Rightarrow>
                (Upgraded (headers_listener request g), upgrade_callback userID request s g)))"

subsection \<open>Runs of a queue\<close>

text \<open>
  A configuration is a queue with the \<open>play()\<close> calls that were launched and that are still
  before line 296 or about to run it (phases \<open>Fetching\<close>, \<open>Probing\<close>, \<open>Built\<close>): the
  launches in flight. \<open>play()\<close> is called at lines 195, 373, 413 and 420 only, that is by
  \<open>nextSong\<close> (which only \<open>queue(track)\<close> reaches, from the PLAY command) and by the three
  re-arms. A step is
  \<^item> a re-arm command (seek, filters, ffmpeg);
  \<^item> a PLAY command that reaches \<open>queue(track)\<close>;
  \<^item> the progress of a launch: its stream arrives (\<open>demux\<close> runs, and where it resolves the
    promise, line 296 runs in the same turn of the event loop), its probe ends, or the
    call resumes at line 296 with the resource it built inside the command; or the failure
    of a launch (the rejection is logged, or the promise never settles);
  \<^item> anything else that happens to the queue and leaves \<open>applyingFilters\<close> alone: the
    field is written only at lines 122, 230, 374, 414 and 421, that is by the constructor,
    by \<open>demux\<close> (inside a \<open>play()\<close>, whoever launched it) and by the three re-arms.

  Each step carries a label saying which of the four it is, and a run is a sequence of
  steps with the list of their labels.
\<close>

datatype rearm_cmd = DoSeek int | DoFilters FilterSpec | DoFfmpeg "string list"

fun run_cmd :: "Deps \<Rightarrow> rearm_cmd \<Rightarrow> Queue \<Rightarrow> Outcome" where
  "run_cmd D (DoSeek amount) q = seek D amount q"
| "run_cmd D (DoFilters spec) q = filters D spec q"
| "run_cmd D (DoFfmpeg args) q = ffmpeg D args q"

fun in_flight :: "play_phase option \<Rightarrow> play_phase list" where
  "in_flight None = []"
| "in_flight (Some Returned) = []"
| "in_flight (Some phase) = [phase]"

text \<open>Lines 236-238: the resource of a stream that was only probed.\<close>

definition probed_resource :: "Track \<Rightarrow> AudioResource" where
  "probed_resource meta =
     \<lparr> res_track = t_track meta, res_args = None, playbackDuration = 0, res_volume = 1 \<rparr>"

definition stream_arrived :: "Track \<Rightarrow> TrackInfo \<Rightarrow> Queue \<Rightarrow> Queue \<times> play_phase list" where
  "stream_arrived meta decoded q =
     (let (q1, phase, posted) = demux meta decoded q
      in (case phase of
            Built meta1 resource \<Rightarrow> (fst (play_resume meta1 resource q1), [])
          | Returned \<Rightarrow> (q1, [])
          | other \<Rightarrow> (q1, [other])))"

datatype label = ByRearm rearm_cmd | ByPlay Track | ByProgress | ByOther

fun is_play :: "label \<Rightarrow> bool" where
  "is_play (ByPlay t) = True"
| "is_play l = False"

inductive step ::
  "Deps \<Rightarrow> Queue \<times> play_phase list \<Rightarrow> label \<Rightarrow> Queue \<times> play_phase list \<Rightarrow> bool"
  for D :: Deps
where
  command:
    "step D (q, tasks) (ByRearm c)
            (o_queue (run_cmd D c q), tasks @ in_flight (o_launched (run_cmd D c q)))"
| play_command:
    "step D (q, tasks) (ByPlay t)
            (o_queue (queue D t q), tasks @ in_flight (o_launched (queue D t q)))"
| stream_arrives:
    "Fetching meta decoded \<in> set tasks \<Longrightarrow> stream_arrived meta decoded q = (q1, new) \<Longrightarrow>
     step D (q, tasks) ByProgress (q1, remove1 (Fetching meta decoded) tasks @ new)"
| probe_ends:
    "Probing meta decoded \<in> set tasks \<Longrightarrow>
     step D (q, tasks) ByProgress
            (fst (play_resume meta (probed_resource meta) q), remove1 (Probing meta decoded) tasks)"
| resumes:
    "Built meta resource \<in> set tasks \<Longrightarrow>
     step D (q, tasks) ByProgress
            (fst (play_resume meta resource q), remove1 (Built meta resource) tasks)"
| fails:
    "task \<in> set tasks \<Longrightarrow> step D (q, tasks) ByProgress (q, remove1 task tasks)"
| other:
    "applyingFilters q1 = applyingFilters q \<Longrightarrow> step D (q, tasks) ByOther (q1, tasks)"

inductive run ::
  "Deps \<Rightarrow> Queue \<times> play_phase list \<Rightarrow> label list \<Rightarrow> Queue \<times> play_phase list \<Rightarrow> bool"
  for D :: Deps
where
  run_nil: "run D c [] c"
| run_snoc: "run D c ls c1 \<Longrightarrow> step D c1 l c2 \<Longrightarrow> run D c (ls @ [l]) c2"

subsection \<open>Example inputs\<close>

text \<open>
  A decoder that knows the blob of a local file of 1000 ms and the blob of an http
  stream, with every source enabled. Its number printer prints the integer part, which
  on an integer is what the engine prints.
\<close>

definition local_info :: TrackInfo where
  "local_info =
     \<lparr> tidentifier = ''/tmp/a.ogg'', author = ''Unknown artist'', tlength = 1000,
       isStream = False, tposition = 0, title = ''a'',
       uri = Some ''/tmp/a.ogg'', source = ''local'' \<rparr>"

definition http_info :: TrackInfo where
  "http_info =
     \<lparr> tidentifier = ''http://radio.example/live'', author = ''Unknown artist'', tlength = 0,
       isStream = True, tposition = 0, title = ''Live'',
       uri = Some ''http://radio.example/live'', source = ''http'' \<rparr>"

definition sample_deps :: Deps where
  "sample_deps =
     \<lparr> lib_decode = (\<lambda>blob. if blob = ''QBBB'' then Some local_info
                             else if blob = ''QAAA'' then Some http_info else None),
       cfg_youtube = True, cfg_soundcloud = True, cfg_local = True, cfg_http = True,
       num_str = (\<lambda>n. show_int (floor n)),
       gain_str = (\<lambda>n. show_int (floor n)) \<rparr>"

definition local_track :: Track where
  "local_track =
     \<lparr> t_track = ''QBBB'', t_start = 0, t_end = 0, t_volume = 100, t_pause = False \<rparr>"

definition http_track :: Track where
  "http_track =
     \<lparr> t_track = ''QAAA'', t_start = 0, t_end = 0, t_volume = 100, t_pause = False \<rparr>"

text \<open>A queue playing the local file, and one playing the http stream.\<close>

definition local_queue :: Queue where
  "local_queue =
     (new_Queue ''42'' ''100'')
       \<lparr> track := Some local_track,
         current := Some \<lparr> res_track = ''QBBB'', res_args = None, playbackDuration = 0,
                             res_volume = 1 \<rparr>,
         initial := False, player_status := Playing, connection_ready := True \<rparr>"

definition http_queue :: Queue where
  "http_queue =
     (new_Queue ''42'' ''100'')
       \<lparr> track := Some http_track,
         current := Some \<lparr> res_track = ''QAAA'', res_args = None, playbackDuration = 0,
                             res_volume = 1 \<rparr>,
         initial := False, player_status := Playing, connection_ready := True \<rparr>"

text \<open>
  Example input: a queue 600 ms into a resource, after a seek to 500 ms, at rate 1.5, whose
  track ends at 1000 ms.
\<close>

definition ending_queue :: Queue where
  "ending_queue =
     (new_Queue ''42'' ''100'')
       \<lparr> track := Some \<lparr> t_track = ''QBBB'', t_start = 0, t_end = 1000, t_volume = 100,
                           t_pause = False \<rparr>,
         current := Some \<lparr> res_track = ''QBBB'', res_args = None, playbackDuration = 600,
                             res_volume = 1 \<rparr>,
         seekTime := 500, rate := 3 / 2, player_status := Playing, connection_ready := True \<rparr>"

subsection \<open>Runs without PLAY: the invariant\<close>

text \<open>
  At most one launch is in flight, and while one is, \<open>applyingFilters\<close> is set.
\<close>

definition launch_inv :: "Queue \<times> play_phase list \<Rightarrow> bool" where
  "launch_inv c = (length (snd c) \<le> 1 \<and> (snd c = [] \<or> applyingFilters (fst c)))"

subsection \<open>More example inputs\<close>

text \<open>
  Packets, filter payloads, queues with a re-arm pending, and a gateway whose only client
  (user 42, socket 1, room 100, resume key k) disconnects (timer 9) and misses two events.
\<close>

definition seek_packet :: Packet where
  "seek_packet = \<lparr> p_clientID = ''42'', p_guildId = ''100'', p_broadcasted = True, p_threadID = 0,
                    p_data = SEEK 5000 \<rparr>"

definition equalizer_spec :: FilterSpec where
  "equalizer_spec =
     \<lparr> f_volume = None, f_equalizer = Some [\<lparr> band = 0, gain = 1 \<rparr>], f_timescale = None,
       f_tremolo = None, f_vibrato = None, f_rotation = None, f_lowPass = None \<rparr>"

definition timescale_spec :: "rat option \<Rightarrow> Band list option \<Rightarrow> FilterSpec" where
  "timescale_spec speed eqs =
     \<lparr> f_volume = None, f_equalizer = eqs,
       f_timescale = Some \<lparr> ts_rate = None, ts_pitch = None, ts_speed = speed \<rparr>,
       f_tremolo = None, f_vibrato = None, f_rotation = None, f_lowPass = None \<rparr>"

definition pending_queue :: Queue where
  "pending_queue = http_queue\<lparr>applyingFilters := True\<rparr>"

definition seeking_queue :: Queue where
  "seeking_queue = http_queue\<lparr>xfilters := [Arg ''-ss'', Arg ''5ms'', Arg ''-accurate_seek''],
                              applyingFilters := True, seekTime := 5\<rparr>"



definition connected_gateway :: Gateway where
  "connected_gateway =
     \<lparr> connections = [(''42'', [\<lparr> socket = 1, resumeKey = Some ''k'', resumeTimeout = 5 \<rparr>])],
       socketDeleteTimeouts = Map.empty,
       playerMap = [''42.100'' \<mapsto> 1],
       sent = (\<lambda>s. []),
       timers = [] \<rparr>"

definition closed_gateway :: Gateway where
  "closed_gateway =
     connected_gateway
       \<lparr> socketDeleteTimeouts := [''k'' \<mapsto> \<lparr> timeout = 9, events = [] \<rparr>], timers := [9] \<rparr>"

definition track_end :: out_data where
  "track_end = EventData ''100'' (TrackEndEvent FINISHED)"

definition track_start :: out_data where
  "track_start = EventData ''100'' (TrackStartEvent ''QBBB'')"

definition buffered_gateway :: Gateway where
  "buffered_gateway = on_pool_message ''42'' track_start (on_pool_message ''42'' track_end closed_gateway)"

definition resume_request :: UpgradeRequest where
  "resume_request = \<lparr> hdr_authorization = None, hdr_user_id = Some ''42'', hdr_resume_key = Some ''k'' \<rparr>"

text \<open>
  A queue that has just been created by a PLAY of the http stream (the stream not there
  yet), a queue whose track has finished, and the resource \<open>demux\<close> builds for the local
  file when the chain holds a seek to \<open>ms\<close>.
\<close>

definition waiting_queue :: Queue where
  "waiting_queue = (new_Queue ''42'' ''100'')\<lparr>track := Some http_track\<rparr>"


definition sought_resource :: "string \<Rightarrow> AudioResource" where
  "sought_resource ms =
     \<lparr> res_track = ''QBBB'', res_args = Some ([Arg ''-ss'', Arg ms] @ base_args),
       playbackDuration = 0, res_volume = 1 \<rparr>"

text \<open>
  A gateway with two clients of user 42: socket 1 (resume key k) plays in room 100 and
  socket 2 (no resume key) in room 200. In \<open>shared_gateway\<close> the connection of socket 1 is
  the first of the user's entry, in \<open>mirrored_gateway\<close> the second.
\<close>

definition shared_gateway :: Gateway where
  "shared_gateway =
     \<lparr> connections = [(''42'', [\<lparr> socket = 1, resumeKey = Some ''k'', resumeTimeout = 5 \<rparr>,
                                \<lparr> socket = 2, resumeKey = None, resumeTimeout = 60 \<rparr>])],
       socketDeleteTimeouts = Map.empty,
       playerMap = [''42.100'' \<mapsto> 1, ''42.200'' \<mapsto> 2],
       sent = (\<lambda>s. []),
       timers = [] \<rparr>"

definition mirrored_gateway :: Gateway where
  "mirrored_gateway =
     shared_gateway
       \<lparr> connections := [(''42'', [\<lparr> socket = 2, resumeKey = None, resumeTimeout = 60 \<rparr>,
                                   \<lparr> socket = 1, resumeKey = Some ''k'', resumeTimeout = 5 \<rparr>])] \<rparr>"

definition room200_event :: out_data where
  "room200_event = EventData ''200'' (TrackStartEvent ''QAAA'')"

section \<open>Theorems\<close>

subsection \<open>GET /decodetracks\<close>

lemma decode_each_sound:
  "decode_each decode ts = Some xs \<Longrightarrow>
     list_all (\<lambda>(t, r). \<exists>d. decode t = Some d \<and> r = convertDecodedTrackToResponse d) xs"
proof (induction ts arbitrary: xs)
  case Nil
  then show ?case by simp
next
  case (Cons t ts)
  then show ?case
    by (auto split: option.splits)
qed

lemma decode_each_tracks:
  "decode_each decode ts = Some xs \<Longrightarrow> map fst xs = ts"
  by (induction ts arbitrary: xs) (auto split: option.splits)

text \<open>
  C10. Every info object that GET /decodetracks returns, for a single \<open>track\<close> value or
  for repeated ones, is the conversion of the decoded blob, and its \<open>isSeekable\<close> is the
  negation of the blob's \<open>isStream\<close>. The conversion does not read anything else the
  decoded blob carries: changing the extension part of the decoded record (where a
  seekability flag of the blob would live) leaves the response unchanged.
\<close>

theorem decodetracks_isSeekable_is_not_isStream:
  "(decodetracks decode q = Ok200 (Single r) \<longrightarrow>
      (\<exists>t d. q = QOne (QStr t) \<and> decode t = Some d \<and> r = convertDecodedTrackToResponse d
             \<and> r_isSeekable r = (\<not> isStream d)))
   \<and> (decodetracks decode q = Ok200 (Array xs) \<longrightarrow>
      list_all (\<lambda>(t, r). \<exists>d. decode t = Some d \<and> r = convertDecodedTrackToResponse d
                              \<and> r_isSeekable r = (\<not> isStream d)) xs)
   \<and> r_isSeekable (convertDecodedTrackToResponse d0) = (\<not> isStream d0)
   \<and> convertDecodedTrackToResponse (d0\<lparr>TrackInfo.more := m\<rparr>) = convertDecodedTrackToResponse d0"
proof (intro conjI impI)
  assume a: "decodetracks decode q = Ok200 (Single r)"
  then show "\<exists>t d. q = QOne (QStr t) \<and> decode t = Some d \<and> r = convertDecodedTrackToResponse d
             \<and> r_isSeekable r = (\<not> isStream d)"
    by (cases "(decode, q)" rule: decodetracks.cases)
       (auto simp: convertDecodedTrackToResponse_def split: if_splits option.splits)
next
  assume a: "decodetracks decode q = Ok200 (Array xs)"
  then obtain items where q: "q = QMany items"
    and e: "decode_each decode (map item_string items) = Some xs"
    by (cases "(decode, q)" rule: decodetracks.cases)
       (auto split: if_splits option.splits)
  from decode_each_sound [OF e]
  show "list_all (\<lambda>(t, r). \<exists>d. decode t = Some d \<and> r = convertDecodedTrackToResponse d
                              \<and> r_isSeekable r = (\<not> isStream d)) xs"
    by (auto simp: list_all_iff convertDecodedTrackToResponse_def)
next
  show "r_isSeekable (convertDecodedTrackToResponse d0) = (\<not> isStream d0)"
    by (simp add: convertDecodedTrackToResponse_def)
next
  show "convertDecodedTrackToResponse (d0\<lparr>TrackInfo.more := m\<rparr>) = convertDecodedTrackToResponse d0"
    by (simp add: convertDecodedTrackToResponse_def)
qed

theorem decodetracks_isSeekable_witness:
  "decodetracks sample_decode (QOne (QStr ''QAAA''))
     = Ok200 (Single (convertDecodedTrackToResponse radio_info))
   \<and> (\<exists>t d. QOne (QStr ''QAAA'') = QOne (QStr t) \<and> sample_decode t = Some d
         \<and> convertDecodedTrackToResponse radio_info = convertDecodedTrackToResponse d
         \<and> r_isSeekable (convertDecodedTrackToResponse radio_info) = (\<not> isStream d))
   \<and> decodetracks sample_decode (QMany [QStr ''QAAA'', QStr ''QBBB''])
     = Ok200 (Array [(''QAAA'', convertDecodedTrackToResponse radio_info),
                     (''QBBB'', convertDecodedTrackToResponse file_info)])
   \<and> list_all (\<lambda>(t, r). \<exists>d. sample_decode t = Some d \<and> r = convertDecodedTrackToResponse d
                              \<and> r_isSeekable r = (\<not> isStream d))
        [(''QAAA'', convertDecodedTrackToResponse radio_info),
         (''QBBB'', convertDecodedTrackToResponse file_info)]
   \<and> \<not> r_isSeekable (convertDecodedTrackToResponse radio_info)
   \<and> r_isSeekable (convertDecodedTrackToResponse file_info)"
proof -
  have one: "decodetracks sample_decode (QOne (QStr ''QAAA''))
     = Ok200 (Single (convertDecodedTrackToResponse radio_info))"
    by (simp add: sample_decode_def)
  have many: "decodetracks sample_decode (QMany [QStr ''QAAA'', QStr ''QBBB''])
     = Ok200 (Array [(''QAAA'', convertDecodedTrackToResponse radio_info),
                     (''QBBB'', convertDecodedTrackToResponse file_info)])"
    by (simp add: sample_decode_def)
  have flags: "\<not> r_isSeekable (convertDecodedTrackToResponse radio_info)
      \<and> r_isSeekable (convertDecodedTrackToResponse file_info)"
    by (simp add: convertDecodedTrackToResponse_def radio_info_def file_info_def)
  have single_part: "\<exists>t d. QOne (QStr ''QAAA'') = QOne (QStr t) \<and> sample_decode t = Some d
         \<and> convertDecodedTrackToResponse radio_info = convertDecodedTrackToResponse d
         \<and> r_isSeekable (convertDecodedTrackToResponse radio_info) = (\<not> isStream d)"
    using decodetracks_isSeekable_is_not_isStream
      [of sample_decode "QOne (QStr ''QAAA'')" "convertDecodedTrackToResponse radio_info",
       THEN conjunct1, THEN mp, OF one] .
  have array_part: "list_all (\<lambda>(t, r). \<exists>d. sample_decode t = Some d \<and> r = convertDecodedTrackToResponse d
                              \<and> r_isSeekable r = (\<not> isStream d))
        [(''QAAA'', convertDecodedTrackToResponse radio_info),
         (''QBBB'', convertDecodedTrackToResponse file_info)]"
    using decodetracks_isSeekable_is_not_isStream
      [of sample_decode "QMany [QStr ''QAAA'', QStr ''QBBB'']" _
          "[(''QAAA'', convertDecodedTrackToResponse radio_info),
            (''QBBB'', convertDecodedTrackToResponse file_info)]",
       THEN conjunct2, THEN conjunct1, THEN mp, OF many] .
  show ?thesis
    using one single_part many array_part flags by (intro conjI) (rule TrueI | assumption | erule conjunct1 | erule conjunct2)+
qed

subsection \<open>The state getter and the heartbeat\<close>

lemma stop_True_silent: "snd (stop True q) = []"
  by (simp add: stop_def player_stop_def onPlayerStateChange_def split: prod.splits if_splits)

lemma stop_True_idle: "player_status (fst (stop True q)) = Idle"
  by (auto simp add: stop_def player_stop_def onPlayerStateChange_def split: prod.splits if_splits)

lemma stop_True_frame:
  "paused (fst (stop True q)) = paused q \<and> clientID (fst (stop True q)) = clientID q
   \<and> guildID (fst (stop True q)) = guildID q
   \<and> connection_ready (fst (stop True q)) = connection_ready q"
  by (auto simp add: stop_def player_stop_def onPlayerStateChange_def split: prod.splits if_splits)

lemma state_silent: "snd (snd (state q)) = []"
  using stop_True_silent [of q]
  by (auto simp add: state_def Let_def split: prod.splits option.splits)

lemma state_frame:
  "paused (fst (snd (state q))) = paused q \<and> clientID (fst (snd (state q))) = clientID q
   \<and> guildID (fst (snd (state q))) = guildID q"
  using stop_True_frame [of q]
  by (auto simp add: state_def Let_def split: prod.splits option.splits)

lemma state_position: "position (fst (state q)) = position_ms q"
  by (simp add: state_def Let_def split: prod.splits option.splits)

lemma report_queue_posts:
  "snd (report_queue q) =
     (if \<not> paused q then [MESSAGE (clientID q) (PlayerUpdateData (guildID q) (fst (state q)))]
      else [])"
  using state_silent [of q] state_frame [of q]
  by (auto simp add: report_queue_def split: prod.splits)

lemma reportInterval_posts:
  "snd (reportInterval qs) =
     map (\<lambda>q. MESSAGE (clientID q) (PlayerUpdateData (guildID q) (fst (state q))))
         (filter (\<lambda>q. \<not> paused q) (map snd qs))"
proof (induction qs)
  case Nil
  then show ?case by simp
next
  case (Cons kq qs)
  obtain k q where kq: "kq = (k, q)" by (cases kq)
  show ?case
    using Cons.IH report_queue_posts [of q]
    by (auto simp add: kq split: prod.splits)
qed

text \<open>
  C1. The position the state getter reports is
  \<open>floor ((playbackDuration of the current resource, or 0 without one, + seekTime) * rate)\<close>.
  When the queue has a track with a nonzero end mark and the position has reached it, the
  getter does what \<open>stop(true)\<close> does: the player ends idle and nothing is posted;
  otherwise the getter leaves the queue as it is. One tick of the heartbeat posts, for
  the queues that are not paused and in the order of the map, one \<open>playerUpdate\<close> each,
  carrying exactly the object the state getter returns for that queue, and nothing else.
\<close>

theorem state_position_stop_and_heartbeat:
  "position (fst (state q))
     = floor (of_int ((case current q of None \<Rightarrow> 0 | Some r \<Rightarrow> playbackDuration r) + seekTime q)
              * rate q)
   \<and> (track q = Some t \<and> t_end t \<noteq> 0 \<and> position (fst (state q)) \<ge> t_end t \<longrightarrow>
        snd (state q) = stop True q \<and> snd (stop True q) = []
        \<and> player_status (fst (stop True q)) = Idle)
   \<and> (\<not> (\<exists>t'. track q = Some t' \<and> t_end t' \<noteq> 0 \<and> position (fst (state q)) \<ge> t_end t') \<longrightarrow>
        snd (state q) = (q, []))
   \<and> snd (reportInterval qs)
       = map (\<lambda>q'. MESSAGE (clientID q') (PlayerUpdateData (guildID q') (fst (state q'))))
             (filter (\<lambda>q'. \<not> paused q') (map snd qs))"
proof (intro conjI impI)
  show "position (fst (state q))
     = floor (of_int ((case current q of None \<Rightarrow> 0 | Some r \<Rightarrow> playbackDuration r) + seekTime q)
              * rate q)"
    by (simp add: state_position position_ms_def)
next
  assume a: "track q = Some t \<and> t_end t \<noteq> 0 \<and> position (fst (state q)) \<ge> t_end t"
  then have "t_end t \<le> position_ms q" by (simp add: state_position)
  with a show "snd (state q) = stop True q"
    by (simp add: state_def Let_def split: prod.splits)
next
  show "snd (stop True q) = []" by (rule stop_True_silent)
next
  show "player_status (fst (stop True q)) = Idle" by (rule stop_True_idle)
next
  assume "\<not> (\<exists>t'. track q = Some t' \<and> t_end t' \<noteq> 0 \<and> position (fst (state q)) \<ge> t_end t')"
  then show "snd (state q) = (q, [])"
    by (auto simp add: state_position state_def Let_def split: prod.splits option.splits)
next
  show "snd (reportInterval qs)
       = map (\<lambda>q'. MESSAGE (clientID q') (PlayerUpdateData (guildID q') (fst (state q'))))
             (filter (\<lambda>q'. \<not> paused q') (map snd qs))"
    by (rule reportInterval_posts)
qed

theorem state_position_stop_and_heartbeat_witness:
  "position (fst (state ending_queue)) = 1650
   \<and> snd (state ending_queue) = stop True ending_queue
   \<and> snd (stop True ending_queue) = []
   \<and> player_status (fst (stop True ending_queue)) = Idle
   \<and> snd (state (ending_queue\<lparr>track := None\<rparr>)) = (ending_queue\<lparr>track := None\<rparr>, [])
   \<and> snd (reportInterval [(''42.100'', ending_queue), (''42.200'', ending_queue\<lparr>paused := True\<rparr>)])
       = [MESSAGE ''42'' (PlayerUpdateData ''100'' \<lparr> position = 1650, connected = True \<rparr>)]"
proof -
  let ?t = "\<lparr> t_track = ''QBBB'', t_start = 0, t_end = 1000, t_volume = 100, t_pause = False \<rparr>"
  have pos: "position (fst (state ending_queue)) = 1650"
    by (simp add: state_def position_ms_def ending_queue_def new_Queue_def Let_def
             split: prod.splits)
  have tr: "track ending_queue = Some ?t"
    by (simp add: ending_queue_def)
  have hyp: "track ending_queue = Some ?t \<and> t_end ?t \<noteq> 0
             \<and> position (fst (state ending_queue)) \<ge> t_end ?t"
    using pos tr by simp
  have stopped: "snd (state ending_queue) = stop True ending_queue
        \<and> snd (stop True ending_queue) = []
        \<and> player_status (fst (stop True ending_queue)) = Idle"
    using state_position_stop_and_heartbeat
      [of ending_queue ?t, THEN conjunct2, THEN conjunct1, THEN mp, OF hyp] .
  have none: "\<not> (\<exists>t'. track (ending_queue\<lparr>track := None\<rparr>) = Some t' \<and> t_end t' \<noteq> 0
                 \<and> position (fst (state (ending_queue\<lparr>track := None\<rparr>))) \<ge> t_end t')"
    by simp
  have kept: "snd (state (ending_queue\<lparr>track := None\<rparr>)) = (ending_queue\<lparr>track := None\<rparr>, [])"
    using state_position_stop_and_heartbeat
      [of "ending_queue\<lparr>track := None\<rparr>", THEN conjunct2, THEN conjunct2, THEN conjunct1,
       THEN mp, OF none] .
  have st: "fst (state ending_queue) = \<lparr> position = 1650, connected = True \<rparr>"
    by (simp add: state_def position_ms_def ending_queue_def new_Queue_def Let_def stop_def
             player_stop_def onPlayerStateChange_def split: prod.splits)
  have ids: "clientID ending_queue = ''42'' \<and> guildID ending_queue = ''100''
             \<and> \<not> paused ending_queue"
    by (simp add: ending_queue_def new_Queue_def)
  have beat: "snd (reportInterval [(''42.100'', ending_queue), (''42.200'', ending_queue\<lparr>paused := True\<rparr>)])
       = [MESSAGE ''42'' (PlayerUpdateData ''100'' \<lparr> position = 1650, connected = True \<rparr>)]"
    using state_position_stop_and_heartbeat
      [of ending_queue _ "[(''42.100'', ending_queue), (''42.200'', ending_queue\<lparr>paused := True\<rparr>)]",
       THEN conjunct2, THEN conjunct2, THEN conjunct2]
      st ids
    by simp
  from pos stopped kept beat show ?thesis by simp
qed

subsection \<open>Queue.seek\<close>

lemma indexOf_None: "indexOf xs x = None \<longleftrightarrow> x \<notin> set xs"
  by (induction xs) auto

lemma indexOf_Some:
  "indexOf xs x = Some i \<Longrightarrow> i < length xs \<and> xs ! i = x \<and> x \<notin> set (take i xs)"
proof (induction xs arbitrary: i)
  case Nil
  then show ?case by simp
next
  case (Cons y ys)
  show ?case
  proof (cases "y = x")
    case True
    with Cons.prems show ?thesis by simp
  next
    case False
    with Cons.prems obtain j where j: "indexOf ys x = Some j" and i: "i = Suc j"
      by auto
    from Cons.IH [OF j] False show ?thesis by (simp add: i)
  qed
qed

lemma count_list_0_iff: "count_list xs x = 0 \<longleftrightarrow> x \<notin> set xs"
  by (induction xs) auto

lemma splice_single:
  assumes i: "indexOf xs x = Some i" and c: "count_list xs x \<le> 1"
  shows "x \<notin> set (splice i 2 xs)"
proof -
  from indexOf_Some [OF i] have lt: "i < length xs" and at: "xs ! i = x"
    and before: "x \<notin> set (take i xs)" by auto
  have split: "xs = take i xs @ x # drop (Suc i) xs"
    using lt at by (metis id_take_nth_drop)
  have "count_list xs x = count_list (take i xs) x + 1 + count_list (drop (Suc i) xs) x"
    by (subst split) simp
  with c have "count_list (drop (Suc i) xs) x = 0" by simp
  then have after: "x \<notin> set (drop (Suc i) xs)" by (simp add: count_list_0_iff)
  have "set (drop (i + 2) xs) \<subseteq> set (drop (Suc i) xs)"
    by (metis Suc_eq_plus1 add_2_eq_Suc' drop_drop set_drop_subset add.commute)
  with after before show ?thesis by (auto simp: splice_def)
qed

lemma seek_chain_shape:
  "\<exists>rest. seek_chain amount chain = rest @ seek_args amount
      \<and> (count_list chain (Arg ''-ss'') \<le> 1 \<longrightarrow> Arg ''-ss'' \<notin> set rest)"
proof (cases "indexOf chain (Arg ''-ss'')")
  case None
  then have "Arg ''-ss'' \<notin> set chain" by (simp add: indexOf_None)
  with None show ?thesis by (simp add: seek_chain_def seek_args_def)
next
  case (Some i)
  have "count_list chain (Arg ''-ss'') \<le> 1 \<longrightarrow> Arg ''-ss'' \<notin> set (splice i 2 chain)"
    using splice_single [OF Some] by simp
  with Some show ?thesis by (simp add: seek_chain_def seek_args_def)
qed

lemma seek_args_count: "count_list (seek_args a) (Arg ''-ss'') = 1"
  by (simp add: seek_args_def)

lemma rearm_flag: "applyingFilters (o_queue (rearm D q))"
  by (simp add: rearm_def split: prod.splits)

lemmas eval_defs = seek_def rearm_def play_sync_def demux_def finish_demux_def state_def
  position_ms_def stop_def player_stop_def onPlayerStateChange_def seek_chain_def seek_args_def
  splice_def slice_def base_args_def show_int_def show_nat.simps Let_def
  sample_deps_def local_info_def http_info_def local_queue_def http_queue_def local_track_def
  http_track_def new_Queue_def

text \<open>
  C3. For every \<open>seek(amount)\<close>: seek-time is set to \<open>amount\<close> and \<open>applyingFilters\<close> ends set.
  The chain that the call builds (\<open>seek_chain\<close>: lines 368-371) ends with the three tokens
  \<open>-ss\<close>, \<open><amount>ms\<close>, \<open>-accurate_seek\<close>: they are appended to the old chain as it is when
  it has no \<open>-ss\<close>, and a chain that held at most one \<open>-ss\<close> holds exactly one. When a
  re-arm is pending, this is the chain the call leaves and nothing else but seek-time
  changes; otherwise \<open>play()\<close> is called on the queue with this chain (and may already
  move the entry into the ffmpeg arguments before the call returns).
\<close>

theorem seek_appends_and_records:
  "seekTime (o_queue (seek D amount q)) = amount
   \<and> applyingFilters (o_queue (seek D amount q))
   \<and> (\<exists>rest. seek_chain amount (xfilters q)
                 = rest @ [Arg ''-ss'', Arg (show_int amount @ ''ms''), Arg ''-accurate_seek'']
          \<and> (count_list (xfilters q) (Arg ''-ss'') \<le> 1 \<longrightarrow>
               count_list (seek_chain amount (xfilters q)) (Arg ''-ss'') = 1))
   \<and> (applyingFilters q \<longrightarrow>
         o_queue (seek D amount q)
           = q\<lparr>xfilters := seek_chain amount (xfilters q), seekTime := amount\<rparr>
         \<and> o_launched (seek D amount q) = None)
   \<and> (\<not> applyingFilters q \<longrightarrow>
         o_launched (seek D amount q)
           = Some (fst (snd (play_sync D (q\<lparr>xfilters := seek_chain amount (xfilters q)\<rparr>)))))
   \<and> (Arg ''-ss'' \<notin> set (xfilters q) \<longrightarrow>
         seek_chain amount (xfilters q)
           = xfilters q @ [Arg ''-ss'', Arg (show_int amount @ ''ms''), Arg ''-accurate_seek''])"
proof (intro conjI impI)
  show "seekTime (o_queue (seek D amount q)) = amount"
    by (simp add: seek_def Let_def)
next
  assume "Arg ''-ss'' \<notin> set (xfilters q)"
  then have "indexOf (xfilters q) (Arg ''-ss'') = None" by (simp add: indexOf_None)
  then show "seek_chain amount (xfilters q)
           = xfilters q @ [Arg ''-ss'', Arg (show_int amount @ ''ms''), Arg ''-accurate_seek'']"
    by (simp add: seek_chain_def)
next
  show "applyingFilters (o_queue (seek D amount q))"
    using rearm_flag [of D "q\<lparr>xfilters := seek_chain amount (xfilters q)\<rparr>"]
    by (simp add: seek_def Let_def)
next
  from seek_chain_shape [of amount "xfilters q"]
  obtain rest where r: "seek_chain amount (xfilters q) = rest @ seek_args amount"
    and c: "count_list (xfilters q) (Arg ''-ss'') \<le> 1 \<longrightarrow> Arg ''-ss'' \<notin> set rest"
    by blast
  have "count_list (xfilters q) (Arg ''-ss'') \<le> 1 \<longrightarrow>
          count_list (seek_chain amount (xfilters q)) (Arg ''-ss'') = 1"
    using c by (simp add: r seek_args_count count_list_0_iff)
  with r show "\<exists>rest. seek_chain amount (xfilters q)
                 = rest @ [Arg ''-ss'', Arg (show_int amount @ ''ms''), Arg ''-accurate_seek'']
          \<and> (count_list (xfilters q) (Arg ''-ss'') \<le> 1 \<longrightarrow>
               count_list (seek_chain amount (xfilters q)) (Arg ''-ss'') = 1)"
    by (auto simp: seek_args_def)
next
  assume a: "applyingFilters q"
  then show "o_queue (seek D amount q)
           = q\<lparr>xfilters := seek_chain amount (xfilters q), seekTime := amount\<rparr>"
    by (simp add: seek_def Let_def rearm_def)
  from a show "o_launched (seek D amount q) = None"
    by (simp add: seek_def Let_def rearm_def)
next
  assume "\<not> applyingFilters q"
  then show "o_launched (seek D amount q)
           = Some (fst (snd (play_sync D (q\<lparr>xfilters := seek_chain amount (xfilters q)\<rparr>))))"
    by (simp add: seek_def Let_def rearm_def split: prod.splits)
qed

text \<open>
  The tokens are not put in front: with \<open>volume=2\<close> in the chain they come after it. And
  the chain need not hold an \<open>-ss\<close> when the call returns: for a local file \<open>play()\<close> has
  consumed it by then.
\<close>

theorem seek_prepends_counterexample:
  "xfilters (o_queue (seek sample_deps 5 (http_queue\<lparr>xfilters := [Arg ''volume=2'']\<rparr>)))
     = [Arg ''volume=2'', Arg ''-ss'', Arg ''5ms'', Arg ''-accurate_seek'']
   \<and> xfilters (o_queue (seek sample_deps 5 (http_queue\<lparr>xfilters := [Arg ''volume=2'']\<rparr>)))
     \<noteq> [Arg ''-ss'', Arg ''5ms'', Arg ''-accurate_seek'', Arg ''volume=2'']
   \<and> xfilters (o_queue (seek sample_deps 5 (local_queue\<lparr>xfilters := [Arg ''volume=2'']\<rparr>)))
     = [Arg ''volume=2'']"
  by (simp add: eval_defs)

theorem seek_appends_and_records_witness:
  "seekTime (o_queue (seek sample_deps 7
       (http_queue\<lparr>xfilters := [Arg ''-ss'', Arg ''5ms'', Arg ''volume=2''], applyingFilters := True\<rparr>))) = 7
   \<and> count_list (seek_chain 7 [Arg ''-ss'', Arg ''5ms'', Arg ''volume=2'']) (Arg ''-ss'') = 1
   \<and> xfilters (o_queue (seek sample_deps 7
       (http_queue\<lparr>xfilters := [Arg ''-ss'', Arg ''5ms'', Arg ''volume=2''], applyingFilters := True\<rparr>)))
       = [Arg ''volume=2'', Arg ''-ss'', Arg ''7ms'', Arg ''-accurate_seek'']
   \<and> o_launched (seek sample_deps 7
       (http_queue\<lparr>xfilters := [Arg ''-ss'', Arg ''5ms'', Arg ''volume=2''], applyingFilters := True\<rparr>)) = None
   \<and> o_launched (seek sample_deps 7 http_queue) = Some (Fetching http_track http_info)
   \<and> seek_chain 7 (xfilters http_queue) = [Arg ''-ss'', Arg ''7ms'', Arg ''-accurate_seek'']"
proof -
  let ?q = "http_queue\<lparr>xfilters := [Arg ''-ss'', Arg ''5ms'', Arg ''volume=2''], applyingFilters := True\<rparr>"
  note T = seek_appends_and_records [of sample_deps 7 ?q]
  note U = seek_appends_and_records [of sample_deps 7 http_queue]
  have flag: "applyingFilters ?q" by simp
  have chain: "xfilters ?q = [Arg ''-ss'', Arg ''5ms'', Arg ''volume=2'']" by simp
  have cnt: "count_list (xfilters ?q) (Arg ''-ss'') \<le> 1" by simp
  have noflag: "\<not> applyingFilters http_queue" by (simp add: http_queue_def new_Queue_def)
  from T have t1: "seekTime (o_queue (seek sample_deps 7 ?q)) = 7" by (rule conjunct1)
  from T cnt have t2: "count_list (seek_chain 7 (xfilters ?q)) (Arg ''-ss'') = 1" by blast
  from T flag have t3: "o_queue (seek sample_deps 7 ?q)
           = ?q\<lparr>xfilters := seek_chain 7 (xfilters ?q), seekTime := 7\<rparr>
         \<and> o_launched (seek sample_deps 7 ?q) = None" by blast
  from U noflag have t4: "o_launched (seek sample_deps 7 http_queue)
           = Some (fst (snd (play_sync sample_deps (http_queue\<lparr>xfilters := seek_chain 7 (xfilters http_queue)\<rparr>))))"
    by blast
  have e1: "seek_chain 7 [Arg ''-ss'', Arg ''5ms'', Arg ''volume=2'']
       = [Arg ''volume=2'', Arg ''-ss'', Arg ''7ms'', Arg ''-accurate_seek'']"
    by (simp add: seek_chain_def splice_def show_int_def show_nat.simps)
  have e2: "fst (snd (play_sync sample_deps (http_queue\<lparr>xfilters := seek_chain 7 (xfilters http_queue)\<rparr>)))
       = Fetching http_track http_info"
    by (simp add: play_sync_def sample_deps_def http_queue_def http_track_def http_info_def new_Queue_def)
  have nochain: "Arg ''-ss'' \<notin> set (xfilters http_queue)"
    by (simp add: http_queue_def new_Queue_def)
  from U nochain have t5: "seek_chain 7 (xfilters http_queue)
      = xfilters http_queue @ [Arg ''-ss'', Arg (show_int 7 @ ''ms''), Arg ''-accurate_seek'']"
    by blast
  have e3: "xfilters http_queue = [] \<and> show_int 7 = ''7''"
    by (simp add: http_queue_def new_Queue_def show_int_def show_nat.simps)
  from t1 t2 t3 t4 t5 e1 e2 e3 chain show ?thesis by simp
qed

subsection \<open>The SEEK command\<close>

lemma map_of_map_set: "map_of (map_set k v xs) k = Some v"
  by (induction xs) auto

text \<open>
  C9. For every SEEK command that reaches a worker with a queue for its key: the queue
  becomes what \<open>seek(position)\<close> makes of it, with the position as sent: seek-time is the
  position and the chain built ends with \<open>-ss\<close>, \<open><position>ms\<close>, \<open>-accurate_seek\<close>. The
  track's length is not consulted.
\<close>

theorem seek_command_records_position_unclamped:
  "map_of qs (queue_key (p_clientID packet) (p_guildId packet)) = Some q \<and> p_data packet = SEEK pos \<longrightarrow>
     map_of (h_queues (onMessage D packet qs)) (queue_key (p_clientID packet) (p_guildId packet))
       = Some (o_queue (seek D pos q))
     \<and> seekTime (o_queue (seek D pos q)) = pos
     \<and> (\<exists>rest. seek_chain pos (xfilters q)
                  = rest @ [Arg ''-ss'', Arg (show_int pos @ ''ms''), Arg ''-accurate_seek''])
     \<and> h_launched (onMessage D packet qs) = o_launched (seek D pos q)"
proof (intro impI)
  assume a: "map_of qs (queue_key (p_clientID packet) (p_guildId packet)) = Some q \<and> p_data packet = SEEK pos"
  from seek_chain_shape [of pos "xfilters q"]
  have c: "\<exists>rest. seek_chain pos (xfilters q)
                  = rest @ [Arg ''-ss'', Arg (show_int pos @ ''ms''), Arg ''-accurate_seek'']"
    by (auto simp: seek_args_def)
  have s: "seekTime (o_queue (seek D pos q)) = pos" by (simp add: seek_def Let_def)
  from a have h: "onMessage D packet qs = on_queue (queue_key (p_clientID packet) (p_guildId packet)) (seek D pos) qs"
    by (simp add: onMessage_def Let_def)
  from a have m: "map_of (h_queues (onMessage D packet qs)) (queue_key (p_clientID packet) (p_guildId packet))
       = Some (o_queue (seek D pos q))"
    by (simp add: h on_queue_def Let_def map_of_map_set)
  from a have l: "h_launched (onMessage D packet qs) = o_launched (seek D pos q)"
    by (simp add: h on_queue_def Let_def)
  from m s c l show "map_of (h_queues (onMessage D packet qs)) (queue_key (p_clientID packet) (p_guildId packet))
       = Some (o_queue (seek D pos q))
     \<and> seekTime (o_queue (seek D pos q)) = pos
     \<and> (\<exists>rest. seek_chain pos (xfilters q)
                  = rest @ [Arg ''-ss'', Arg (show_int pos @ ''ms''), Arg ''-accurate_seek''])
     \<and> h_launched (onMessage D packet qs) = o_launched (seek D pos q)"
    by blast
qed

lemma seek5000: "seek sample_deps 5000 local_queue =
  \<lparr> o_queue = local_queue\<lparr>applyingFilters := True, shouldntCallFinish := True, seekTime := 5000\<rparr>,
    o_launched = Some (Built local_track \<lparr> res_track = ''QBBB'',
        res_args = Some ([Arg ''-ss'', Arg ''5000ms''] @ base_args), playbackDuration = 0, res_volume = 1 \<rparr>),
    o_posted = [], o_thrown = None \<rparr>"
  by (simp add: eval_defs)

text \<open>
  A seek to 5000 ms in a track of 1000 ms: seek-time is 5000 and ffmpeg is started with
  \<open>-ss 5000ms\<close>.
\<close>

theorem seek_clamp_counterexample:
  "lib_decode sample_deps (t_track local_track) = Some local_info
   \<and> tlength local_info = 1000
   \<and> map_option track (map_of [(''42.100'', local_queue)] ''42.100'') = Some (Some local_track)
   \<and> map_option seekTime (map_of (h_queues (onMessage sample_deps seek_packet [(''42.100'', local_queue)])) ''42.100'')
       = Some 5000
   \<and> h_launched (onMessage sample_deps seek_packet [(''42.100'', local_queue)])
       = Some (Built local_track \<lparr> res_track = ''QBBB'',
            res_args = Some ([Arg ''-ss'', Arg ''5000ms''] @ base_args), playbackDuration = 0,
            res_volume = 1 \<rparr>)"
  by (simp add: onMessage_def on_queue_def seek_packet_def queue_key_def seek5000 Let_def)
     (simp add: sample_deps_def local_track_def local_info_def local_queue_def)

theorem seek_command_witness:
  "map_of (h_queues (onMessage sample_deps seek_packet [(''42.100'', local_queue)])) ''42.100''
       = Some (local_queue\<lparr>applyingFilters := True, shouldntCallFinish := True, seekTime := 5000\<rparr>)
   \<and> seekTime (o_queue (seek sample_deps 5000 local_queue)) = 5000
   \<and> (\<exists>rest. seek_chain 5000 (xfilters local_queue)
                  = rest @ [Arg ''-ss'', Arg ''5000ms'', Arg ''-accurate_seek''])"
proof -
  have k: "queue_key (p_clientID seek_packet) (p_guildId seek_packet) = ''42.100''"
    by (simp add: seek_packet_def queue_key_def)
  have hyp: "map_of [(''42.100'', local_queue)] (queue_key (p_clientID seek_packet) (p_guildId seek_packet))
               = Some local_queue \<and> p_data seek_packet = SEEK 5000"
    by (simp add: k) (simp add: seek_packet_def)
  have s: "show_int 5000 = ''5000''" by (simp add: show_int_def show_nat.simps)
  from seek_command_records_position_unclamped
         [of "[(''42.100'', local_queue)]" seek_packet local_queue 5000 sample_deps, THEN mp, OF hyp]
  show ?thesis by (simp add: k s seek5000)
qed

subsection \<open>Queue.filters: the equalizer\<close>

lemma set_gains_holes: "eqs \<noteq> [] \<Longrightarrow> set_gains bandSettings0 eqs = Inl TypeError"
  by (cases eqs) (simp_all add: bandSettings0_def numeral_eq_Suc)

lemma equalizer_part_throws:
  "f_equalizer spec = Some eqs \<Longrightarrow> eqs \<noteq> [] \<Longrightarrow> equalizer_part D spec = Inl TypeError"
  by (simp add: equalizer_part_def set_gains_holes)

lemma equalizer_part_quiet:
  "f_equalizer spec = None \<or> f_equalizer spec = Some [] \<Longrightarrow> equalizer_part D spec = Inr []"
  by (auto simp add: equalizer_part_def)

text \<open>
  C7 (what the code does instead). For every FILTERS payload with a non-empty equalizer
  array, \<open>Queue.filters\<close> throws a TypeError in the first \<open>find\<close> over the 15 empty slots:
  the chain has been emptied, no equalizer expression (and nothing else) is pushed, and
  \<open>play()\<close> is not called.
\<close>

theorem filters_equalizer_throws:
  "f_equalizer spec = Some eqs \<and> eqs \<noteq> [] \<longrightarrow>
     filters D spec q
       = \<lparr> o_queue = q\<lparr>xfilters := []\<rparr>, o_launched = None, o_posted = [],
           o_thrown = Some TypeError \<rparr>"
  by (auto simp add: filters_def Let_def equalizer_part_throws)

theorem filters_equalizer_throws_witness:
  "filters sample_deps equalizer_spec (http_queue\<lparr>xfilters := [Arg ''volume=2'']\<rparr>)
       = \<lparr> o_queue = http_queue\<lparr>xfilters := []\<rparr>, o_launched = None, o_posted = [],
           o_thrown = Some TypeError \<rparr>"
proof -
  have hyp: "f_equalizer equalizer_spec = Some [\<lparr> band = 0, gain = 1 \<rparr>] \<and> [\<lparr> band = 0, gain = 1 \<rparr>] \<noteq> []"
    by (simp add: equalizer_spec_def)
  from filters_equalizer_throws
         [of equalizer_spec "[\<lparr> band = 0, gain = 1 \<rparr>]" sample_deps "http_queue\<lparr>xfilters := [Arg ''volume=2'']\<rparr>",
          THEN mp, OF hyp]
  show ?thesis by simp
qed

subsection \<open>Queue.filters: the timescale\<close>

lemma state_rate: "rate (fst (snd (state q))) = rate q"
  by (auto simp add: state_def Let_def stop_def player_stop_def onPlayerStateChange_def
           split: prod.splits option.splits if_splits)

lemma demux_rate: "rate (fst (demux meta decoded q)) = rate q"
proof -
  have s: "\<And>q st q1 m. state q = (st, q1, m) \<Longrightarrow> rate q1 = rate q"
    using state_rate by (metis fst_conv snd_conv)
  show ?thesis
    by (auto simp add: demux_def finish_demux_def Let_def split: prod.splits option.splits dest!: s)
qed

lemma play_sync_rate: "rate (fst (play_sync D q)) = rate q"
  by (auto simp add: play_sync_def demux_rate split: option.splits)

lemma rearm_rate: "rate (o_queue (rearm D q)) = rate q"
  using play_sync_rate [of D q]
  by (auto simp add: rearm_def split: prod.splits)

text \<open>
  C8. For every FILTERS payload with a timescale and without a non-empty equalizer
  array: \<open>play()\<close> is re-armed on a queue whose chain contains the string
  \<open>aresample=48000,asetrate=48000*<pitch + (1 - rate)>,atempo=<speed + (1 - pitch)>,aresample=48000\<close>
  and whose stored rate is \<open>speed\<close>, and the stored rate is still \<open>speed\<close> when the call
  returns; here rate, pitch and speed are the payload's values, or 1 where a value is
  absent or zero.
\<close>

theorem filters_timescale:
  "f_timescale spec = Some ts \<and> (f_equalizer spec = None \<or> f_equalizer spec = Some []) \<longrightarrow>
     (\<exists>q1. filters D spec q = rearm D q1
            \<and> Arg (timescale_expr D ts) \<in> set (xfilters q1)
            \<and> rate q1 = num_or (ts_speed ts) 1)
     \<and> rate (o_queue (filters D spec q)) = num_or (ts_speed ts) 1
     \<and> timescale_expr D ts
         = ''aresample=48000,asetrate=48000*''
           @ num_str D (num_or (ts_pitch ts) 1 + (1 - num_or (ts_rate ts) 1))
           @ '',atempo='' @ num_str D (num_or (ts_speed ts) 1 + (1 - num_or (ts_pitch ts) 1))
           @ '',aresample=48000''
     \<and> num_or None 1 = 1 \<and> num_or (Some 0) 1 = 1
     \<and> (\<forall>v. v \<noteq> 0 \<longrightarrow> num_or (Some v) 1 = v)"
proof (intro impI)
  assume a: "f_timescale spec = Some ts \<and> (f_equalizer spec = None \<or> f_equalizer spec = Some [])"
  then have eq: "equalizer_part D spec = Inr []" by (simp add: equalizer_part_quiet)
  let ?q1 = "(q\<lparr>xfilters := [], rate := num_or (ts_speed ts) 1\<rparr>)
               \<lparr>xfilters := head_part D spec (xfilters q) @ [Arg (timescale_expr D ts)] @ tail_part D spec\<rparr>"
  from a eq have f: "filters D spec q = rearm D ?q1"
    by (simp add: filters_def Let_def timescale_part_def)
  have ex: "\<exists>q1. filters D spec q = rearm D q1
            \<and> Arg (timescale_expr D ts) \<in> set (xfilters q1)
            \<and> rate q1 = num_or (ts_speed ts) 1"
    by (rule exI [of _ ?q1]) (simp add: f)
  have r: "rate (o_queue (filters D spec q)) = num_or (ts_speed ts) 1"
    by (simp add: f rearm_rate)
  have t: "timescale_expr D ts
         = ''aresample=48000,asetrate=48000*''
           @ num_str D (num_or (ts_pitch ts) 1 + (1 - num_or (ts_rate ts) 1))
           @ '',atempo='' @ num_str D (num_or (ts_speed ts) 1 + (1 - num_or (ts_pitch ts) 1))
           @ '',aresample=48000''"
    by (simp add: timescale_expr_def Let_def)
  have n: "num_or None 1 = 1 \<and> num_or (Some 0) 1 = 1 \<and> (\<forall>v. v \<noteq> 0 \<longrightarrow> num_or (Some v) 1 = v)"
    by (simp add: num_or_def)
  from ex r t n show "(\<exists>q1. filters D spec q = rearm D q1
            \<and> Arg (timescale_expr D ts) \<in> set (xfilters q1)
            \<and> rate q1 = num_or (ts_speed ts) 1)
     \<and> rate (o_queue (filters D spec q)) = num_or (ts_speed ts) 1
     \<and> timescale_expr D ts
         = ''aresample=48000,asetrate=48000*''
           @ num_str D (num_or (ts_pitch ts) 1 + (1 - num_or (ts_rate ts) 1))
           @ '',atempo='' @ num_str D (num_or (ts_speed ts) 1 + (1 - num_or (ts_pitch ts) 1))
           @ '',aresample=48000''
     \<and> num_or None 1 = 1 \<and> num_or (Some 0) 1 = 1
     \<and> (\<forall>v. v \<noteq> 0 \<longrightarrow> num_or (Some v) 1 = v)"
    by blast
qed

lemmas filter_eval = filters_def head_part_def tail_part_def timescale_part_def timescale_expr_def
  equalizer_part_def num_or_def set_gains_holes

lemma filters_timescale_spec:
  "eqs = None \<or> eqs = Some [] \<Longrightarrow>
   filters D (timescale_spec speed eqs) q
     = rearm D (q\<lparr>rate := num_or speed 1,
                   xfilters := head_part D (timescale_spec speed eqs) (xfilters q)
                     @ [Arg (timescale_expr D \<lparr> ts_rate = None, ts_pitch = None, ts_speed = speed \<rparr>)]\<rparr>)"
  by (auto simp add: filters_def Let_def timescale_part_def tail_part_def equalizer_part_def
         timescale_spec_def)

lemma ts2: "filters sample_deps (timescale_spec (Some 2) None) (http_queue\<lparr>applyingFilters := True\<rparr>)
  = \<lparr> o_queue = http_queue\<lparr>applyingFilters := True, rate := 2,
          xfilters := [Arg ''aresample=48000,asetrate=48000*1,atempo=2,aresample=48000'']\<rparr>,
      o_launched = None, o_posted = [], o_thrown = None \<rparr>"
  by (simp add: filter_eval timescale_spec_def eval_defs)

lemma ts0: "rate (o_queue (filters sample_deps (timescale_spec (Some 0) None) http_queue)) = 1"
  by (simp add: filters_timescale_spec rearm_rate num_or_def)

lemma ts_eq: "filters sample_deps (timescale_spec (Some 2) (Some [\<lparr> band = 0, gain = 1 \<rparr>])) http_queue
       = \<lparr> o_queue = http_queue\<lparr>xfilters := []\<rparr>, o_launched = None, o_posted = [],
           o_thrown = Some TypeError \<rparr>"
proof -
  have "equalizer_part sample_deps (timescale_spec (Some 2) (Some [\<lparr> band = 0, gain = 1 \<rparr>]))
          = Inl TypeError"
    by (rule equalizer_part_throws [of _ "[\<lparr> band = 0, gain = 1 \<rparr>]"])
       (simp_all add: timescale_spec_def)
  then show ?thesis by (simp add: filters_def Let_def)
qed

text \<open>
  A speed of 0 stores the rate 1, not 0; and with a non-empty equalizer beside the
  timescale the call throws before it reaches the timescale: no string, and the rate is not
  stored.
\<close>

theorem filters_timescale_counterexample:
  "rate (o_queue (filters sample_deps (timescale_spec (Some 0) None) http_queue)) = 1
   \<and> rate http_queue = 1
   \<and> filters sample_deps (timescale_spec (Some 2) (Some [\<lparr> band = 0, gain = 1 \<rparr>])) http_queue
       = \<lparr> o_queue = http_queue\<lparr>xfilters := []\<rparr>, o_launched = None, o_posted = [],
           o_thrown = Some TypeError \<rparr>"
  using ts0 ts_eq by (simp add: http_queue_def new_Queue_def)

subsection \<open>Re-arms while a re-arm is pending\<close>

lemma in_flight_length: "length (in_flight l) \<le> 1"
  by (cases l rule: in_flight.cases) simp_all

lemma filters_pending:
  "applyingFilters q \<Longrightarrow>
     o_launched (filters D spec q) = None \<and> applyingFilters (o_queue (filters D spec q))
     \<and> (o_queue (filters D spec q))\<lparr>xfilters := xfilters q, rate := rate q\<rparr> = q"
  by (auto simp add: filters_def Let_def rearm_def timescale_part_def
           split: sum.splits option.splits prod.splits)

lemma filters_launch_flag:
  "o_launched (filters D spec q) \<noteq> None \<Longrightarrow> applyingFilters (o_queue (filters D spec q))"
  by (auto simp add: filters_def Let_def rearm_flag split: sum.splits prod.splits)

lemma run_cmd_pending:
  "applyingFilters q \<Longrightarrow>
     o_launched (run_cmd D c q) = None \<and> applyingFilters (o_queue (run_cmd D c q))"
proof (cases c)
  case (DoSeek a)
  assume "applyingFilters q"
  then show ?thesis by (simp add: DoSeek seek_def Let_def rearm_def)
next
  case (DoFilters spec)
  assume "applyingFilters q"
  then show ?thesis using filters_pending [of q D spec] by (simp add: DoFilters)
next
  case (DoFfmpeg args)
  assume "applyingFilters q"
  then show ?thesis by (simp add: DoFfmpeg ffmpeg_def rearm_def)
qed

lemma run_cmd_launch_flag:
  "in_flight (o_launched (run_cmd D c q)) \<noteq> [] \<Longrightarrow> applyingFilters (o_queue (run_cmd D c q))"
proof (cases c)
  case (DoSeek a)
  show ?thesis
    using rearm_flag [of D "q\<lparr>xfilters := seek_chain a (xfilters q)\<rparr>"]
    by (simp add: DoSeek seek_def Let_def)
next
  case (DoFilters spec)
  assume "in_flight (o_launched (run_cmd D c q)) \<noteq> []"
  then have "o_launched (filters D spec q) \<noteq> None"
    by (cases "o_launched (filters D spec q)") (simp_all add: DoFilters)
  then show ?thesis by (simp add: DoFilters filters_launch_flag)
next
  case (DoFfmpeg args)
  show ?thesis by (simp add: DoFfmpeg ffmpeg_def rearm_flag)
qed

lemma demux_phase:
  "demux meta decoded q = (q1, phase, posted) \<Longrightarrow>
     (\<exists>m r. phase = Built m r) \<or> (phase = Probing meta decoded \<and> q1 = q)"
  by (auto simp add: demux_def finish_demux_def Let_def split: prod.splits option.splits if_splits)

lemma stream_arrived_tasks:
  "stream_arrived meta decoded q = (q1, new) \<Longrightarrow>
     new = [] \<or> (new = [Probing meta decoded] \<and> q1 = q)"
proof -
  assume a: "stream_arrived meta decoded q = (q1, new)"
  obtain q2 phase posted where d: "demux meta decoded q = (q2, phase, posted)"
    by (cases "demux meta decoded q") auto
  from demux_phase [OF d] a d show ?thesis
    by (auto simp add: stream_arrived_def)
qed

lemma length_le1_cases: "length (xs::'a list) \<le> 1 \<Longrightarrow> xs = [] \<or> (\<exists>x. xs = [x])"
  by (cases xs) auto

lemma step_keeps_launch_inv:
  assumes s: "step D c l c'" and n: "\<not> is_play l" and i: "launch_inv c"
  shows "launch_inv c'"
  using s n i
proof (induction rule: step.induct)
  case (command q tasks c)
  show ?case
  proof (cases "applyingFilters q")
    case True
    from run_cmd_pending [OF True, of D c] command show ?thesis
      by (auto simp add: launch_inv_def)
  next
    case False
    with command have t: "tasks = []" by (auto simp add: launch_inv_def)
    from in_flight_length [of "o_launched (run_cmd D c q)"]
         run_cmd_launch_flag [of D c q]
    show ?thesis by (auto simp add: launch_inv_def t)
  qed
next
  case (play_command q tasks t)
  then show ?case by simp
next
  case (stream_arrives meta decoded tasks q q1 new)
  from stream_arrives.prems length_le1_cases [of tasks] stream_arrives.hyps(1)
  have t: "tasks = [Fetching meta decoded]" and f: "applyingFilters q"
    by (auto simp add: launch_inv_def)
  from stream_arrived_tasks [OF stream_arrives.hyps(2)] f show ?case
    by (auto simp add: launch_inv_def t)
next
  case (probe_ends meta decoded tasks q)
  from probe_ends.prems length_le1_cases [of tasks] probe_ends.hyps
  have t: "tasks = [Probing meta decoded]" by (auto simp add: launch_inv_def)
  show ?case by (simp add: launch_inv_def t)
next
  case (resumes meta resource tasks q)
  from resumes.prems length_le1_cases [of tasks] resumes.hyps
  have t: "tasks = [Built meta resource]" by (auto simp add: launch_inv_def)
  show ?case by (simp add: launch_inv_def t)
next
  case (fails task tasks q)
  from fails.prems length_le1_cases [of tasks] fails.hyps
  have t: "tasks = [task]" by (auto simp add: launch_inv_def)
  show ?case by (simp add: launch_inv_def t)
next
  case (other q1 q tasks)
  then show ?case by (auto simp add: launch_inv_def)
qed

lemma run_keeps_launch_inv:
  "run D c ls c' \<Longrightarrow> \<not> list_ex is_play ls \<Longrightarrow> launch_inv c \<Longrightarrow> launch_inv c'"
  by (induction rule: run.induct) (auto intro: step_keeps_launch_inv)

text \<open>
  C2. When seek, filters or ffmpeg is called while \<open>applyingFilters\<close> is set, it calls no
  \<open>play()\<close> and leaves the flag set; the queue changes in its chain only, and besides in
  seek-time for a seek and in the rate for filters. A \<open>play()\<close> that reaches line 296 while
  the flag is set destroys the stream of its resource and returns, leaving the queue as it
  is. In every run that starts with no launch in flight and has no PLAY command among its
  steps (re-arm commands, the progress or failure of the launches, and whatever else
  leaves \<open>applyingFilters\<close> alone), at most one launch is in flight at any time, and the
  flag is set while one is.
\<close>

theorem rearm_while_pending:
  "(applyingFilters q \<longrightarrow>
      o_launched (seek D amount q) = None
      \<and> o_launched (filters D spec q) = None
      \<and> o_launched (ffmpeg D args q) = None
      \<and> o_queue (seek D amount q) = q\<lparr>xfilters := seek_chain amount (xfilters q), seekTime := amount\<rparr>
      \<and> o_queue (ffmpeg D args q) = q\<lparr>xfilters := map Arg args\<rparr>
      \<and> (o_queue (filters D spec q))\<lparr>xfilters := xfilters q, rate := rate q\<rparr> = q
      \<and> applyingFilters (o_queue (filters D spec q))
      \<and> play_resume meta resource q = (q, Destroyed resource, []))
   \<and> (run D (q0, []) ls (q1, tasks) \<and> \<not> list_ex is_play ls \<longrightarrow>
        length tasks \<le> 1 \<and> (tasks = [] \<or> applyingFilters q1))"
proof (intro conjI impI)
  assume a: "applyingFilters q"
  then show "o_launched (seek D amount q) = None"
    by (simp add: seek_def Let_def rearm_def)
  from a show "o_launched (filters D spec q) = None"
    by (simp add: filters_pending)
  from a show "o_launched (ffmpeg D args q) = None"
    by (simp add: ffmpeg_def rearm_def)
  from a show "o_queue (seek D amount q) = q\<lparr>xfilters := seek_chain amount (xfilters q), seekTime := amount\<rparr>"
    by (simp add: seek_def Let_def rearm_def)
  from a show "o_queue (ffmpeg D args q) = q\<lparr>xfilters := map Arg args\<rparr>"
    by (simp add: ffmpeg_def rearm_def)
  from a show "(o_queue (filters D spec q))\<lparr>xfilters := xfilters q, rate := rate q\<rparr> = q"
    by (simp add: filters_pending)
  from a show "applyingFilters (o_queue (filters D spec q))"
    by (simp add: filters_pending)
  from a show "play_resume meta resource q = (q, Destroyed resource, [])"
    by (simp add: play_resume_def)
next
  assume r: "run D (q0, []) ls (q1, tasks) \<and> \<not> list_ex is_play ls"
  then have i: "launch_inv (q1, tasks)"
    using run_keeps_launch_inv [of D "(q0, [])" ls "(q1, tasks)"] by (simp add: launch_inv_def)
  from i show "length tasks \<le> 1"
    by (simp add: launch_inv_def)
  from i show "tasks = [] \<or> applyingFilters q1"
    by (simp add: launch_inv_def)
qed

lemma local_seek:
  "seek sample_deps 7 local_queue
     = \<lparr> o_queue = local_queue\<lparr>applyingFilters := True, shouldntCallFinish := True, seekTime := 7\<rparr>,
         o_launched = Some (Built local_track (sought_resource ''7ms'')),
         o_posted = [], o_thrown = None \<rparr>"
  by (simp add: eval_defs sought_resource_def)


lemma seek5_waiting:
  "seek sample_deps 5 waiting_queue
     = \<lparr> o_queue = waiting_queue\<lparr>xfilters := [Arg ''-ss'', Arg ''5ms'', Arg ''-accurate_seek''],
                                  applyingFilters := True, seekTime := 5\<rparr>,
         o_launched = Some (Fetching http_track http_info), o_posted = [], o_thrown = None \<rparr>"
  by (simp add: eval_defs waiting_queue_def)

lemma play_new:
  "queue sample_deps http_track (new_Queue ''42'' ''100'')
     = \<lparr> o_queue = waiting_queue, o_launched = Some (Fetching http_track http_info),
         o_posted = [], o_thrown = None \<rparr>"
  by (simp add: queue_def replace_def nextSong_def eval_defs waiting_queue_def)

lemma play_local_while_seeking:
  "queue sample_deps local_track
      (waiting_queue\<lparr>xfilters := [Arg ''-ss'', Arg ''5ms'', Arg ''-accurate_seek''],
                     applyingFilters := True, seekTime := 5\<rparr>)
     = \<lparr> o_queue = waiting_queue\<lparr>track := Some local_track, xfilters := [], applyingFilters := False,
                                  shouldntCallFinish := True, seekTime := 0\<rparr>,
         o_launched = Some (Built local_track (sought_resource ''5ms'')),
         o_posted = [], o_thrown = None \<rparr>"
  by (simp add: queue_def replace_def nextSong_def eval_defs waiting_queue_def sought_resource_def)

lemma resume_local:
  "play_resume local_track (sought_resource ''5ms'')
      (waiting_queue\<lparr>track := Some local_track, xfilters := [], applyingFilters := False,
                     shouldntCallFinish := True, seekTime := 0\<rparr>)
     = (waiting_queue\<lparr>track := Some local_track, current := Some (sought_resource ''5ms''),
                      xfilters := [], applyingFilters := False, shouldntCallFinish := True,
                      seekTime := 0, player_status := Buffering\<rparr>, Started, [])"
  by (simp add: play_resume_def player_play_def onPlayerStateChange_def Let_def waiting_queue_def
        new_Queue_def local_track_def)

lemma seek7_buffering:
  "seek sample_deps 7
      (waiting_queue\<lparr>track := Some local_track, current := Some (sought_resource ''5ms''),
                      xfilters := [], applyingFilters := False, shouldntCallFinish := True,
                      seekTime := 0, player_status := Buffering\<rparr>)
     = \<lparr> o_queue = waiting_queue\<lparr>track := Some local_track, current := Some (sought_resource ''5ms''),
                      xfilters := [], applyingFilters := True, shouldntCallFinish := True,
                      seekTime := 7, player_status := Buffering\<rparr>,
         o_launched = Some (Built local_track (sought_resource ''7ms'')),
         o_posted = [], o_thrown = None \<rparr>"
  by (simp add: eval_defs waiting_queue_def sought_resource_def)

text \<open>
  Four facts of the code beyond the statement above.
  \<^item> With a re-arm pending, a seek still changes seek-time and a timescale still changes
    the rate: the chain is not the only thing such a call mutates.
  \<^item> A flag found set at line 296 does not mean that a newer re-arm came: one seek on a
    queue playing a local file, with no re-arm pending, builds its resource inside the
    call (the stream of a local file is there at once, and \<open>demux\<close> clears the flag at line
    230), then sets the flag at line 374, and the same call's \<open>play()\<close> destroys the
    resource it has just built at line 298. The chain is left empty and the flag set.
  \<^item> A PLAY command launches a \<open>play()\<close> whatever the flag says: a re-arm that comes while
    that launch is in flight launches a second one.
  \<^item> The \<open>play()\<close> of a PLAY clears the flag at line 230 while the launch of a re-arm is
    in flight, so the next re-arm launches again: two launches of re-arms are in flight.
\<close>

theorem rearm_cascade_counterexample:
  "applyingFilters pending_queue
   \<and> seekTime pending_queue = 0
   \<and> seekTime (o_queue (seek sample_deps 7 pending_queue)) = 7
   \<and> rate pending_queue = 1
   \<and> rate (o_queue (filters sample_deps (timescale_spec (Some 2) None) pending_queue)) = 2
   \<and> \<not> applyingFilters local_queue
   \<and> seek sample_deps 7 local_queue
       = \<lparr> o_queue = local_queue\<lparr>applyingFilters := True, shouldntCallFinish := True, seekTime := 7\<rparr>,
           o_launched = Some (Built local_track (sought_resource ''7ms'')),
           o_posted = [], o_thrown = None \<rparr>
   \<and> play_resume local_track (sought_resource ''7ms'')
        (local_queue\<lparr>applyingFilters := True, shouldntCallFinish := True, seekTime := 7\<rparr>)
       = (local_queue\<lparr>applyingFilters := True, shouldntCallFinish := True, seekTime := 7\<rparr>,
          Destroyed (sought_resource ''7ms''), [])
   \<and> run sample_deps (new_Queue ''42'' ''100'', []) [ByPlay http_track, ByRearm (DoSeek 5)]
        (waiting_queue\<lparr>xfilters := [Arg ''-ss'', Arg ''5ms'', Arg ''-accurate_seek''],
                       applyingFilters := True, seekTime := 5\<rparr>,
         [Fetching http_track http_info, Fetching http_track http_info])
   \<and> run sample_deps (waiting_queue, [])
        [ByRearm (DoSeek 5), ByPlay local_track, ByProgress, ByRearm (DoSeek 7)]
        (waiting_queue\<lparr>track := Some local_track, current := Some (sought_resource ''5ms''),
                       xfilters := [], applyingFilters := True, shouldntCallFinish := True,
                       seekTime := 7, player_status := Buffering\<rparr>,
         [Fetching http_track http_info, Built local_track (sought_resource ''7ms'')])"
proof -
  let ?q1 = "waiting_queue\<lparr>xfilters := [Arg ''-ss'', Arg ''5ms'', Arg ''-accurate_seek''],
                           applyingFilters := True, seekTime := 5\<rparr>"
  let ?q2 = "waiting_queue\<lparr>track := Some local_track, xfilters := [], applyingFilters := False,
                           shouldntCallFinish := True, seekTime := 0\<rparr>"
  let ?q3 = "waiting_queue\<lparr>track := Some local_track, current := Some (sought_resource ''5ms''),
                      xfilters := [], applyingFilters := False, shouldntCallFinish := True,
                      seekTime := 0, player_status := Buffering\<rparr>"
  let ?q4 = "waiting_queue\<lparr>track := Some local_track, current := Some (sought_resource ''5ms''),
                       xfilters := [], applyingFilters := True, shouldntCallFinish := True,
                       seekTime := 7, player_status := Buffering\<rparr>"
  let ?F = "Fetching http_track http_info"
  let ?B5 = "Built local_track (sought_resource ''5ms'')"
  let ?B7 = "Built local_track (sought_resource ''7ms'')"
  have a: "applyingFilters pending_queue
   \<and> seekTime pending_queue = 0
   \<and> seekTime (o_queue (seek sample_deps 7 pending_queue)) = 7
   \<and> rate pending_queue = 1
   \<and> rate (o_queue (filters sample_deps (timescale_spec (Some 2) None) pending_queue)) = 2"
    by (simp add: pending_queue_def ts2 seek_def Let_def) (simp add: http_queue_def new_Queue_def)
  have b: "\<not> applyingFilters local_queue" by (simp add: local_queue_def new_Queue_def)
  have c: "play_resume local_track (sought_resource ''7ms'')
        (local_queue\<lparr>applyingFilters := True, shouldntCallFinish := True, seekTime := 7\<rparr>)
       = (local_queue\<lparr>applyingFilters := True, shouldntCallFinish := True, seekTime := 7\<rparr>,
          Destroyed (sought_resource ''7ms''), [])"
    by (simp add: play_resume_def)
  have p0: "step sample_deps (new_Queue ''42'' ''100'', []) (ByPlay http_track) (waiting_queue, [?F])"
    using step.play_command [of sample_deps "new_Queue ''42'' ''100''" "[]" http_track]
    by (simp add: play_new)
  have p1: "step sample_deps (waiting_queue, [?F]) (ByRearm (DoSeek 5)) (?q1, [?F, ?F])"
    using step.command [of sample_deps waiting_queue "[?F]" "DoSeek 5"]
    by (simp add: seek5_waiting)
  have r1: "run sample_deps (new_Queue ''42'' ''100'', []) [ByPlay http_track, ByRearm (DoSeek 5)]
              (?q1, [?F, ?F])"
    using run_snoc [OF run_snoc [OF run_nil p0] p1] by simp
  have s1: "step sample_deps (waiting_queue, []) (ByRearm (DoSeek 5)) (?q1, [?F])"
    using step.command [of sample_deps waiting_queue "[]" "DoSeek 5"]
    by (simp add: seek5_waiting)
  have s2: "step sample_deps (?q1, [?F]) (ByPlay local_track) (?q2, [?F, ?B5])"
    using step.play_command [of sample_deps ?q1 "[?F]" local_track]
    by (simp add: play_local_while_seeking)
  have s3: "step sample_deps (?q2, [?F, ?B5]) ByProgress (?q3, [?F])"
    using step.resumes [of local_track "sought_resource ''5ms''" "[?F, ?B5]" sample_deps ?q2]
    by (simp add: resume_local)
  have s4: "step sample_deps (?q3, [?F]) (ByRearm (DoSeek 7)) (?q4, [?F, ?B7])"
    using step.command [of sample_deps ?q3 "[?F]" "DoSeek 7"]
    by (simp add: seek7_buffering)
  have r2: "run sample_deps (waiting_queue, [])
        [ByRearm (DoSeek 5), ByPlay local_track, ByProgress, ByRearm (DoSeek 7)] (?q4, [?F, ?B7])"
    using run_snoc [OF run_snoc [OF run_snoc [OF run_snoc [OF run_nil s1] s2] s3] s4] by simp
  from a b c r1 r2 show ?thesis by (simp add: local_seek)
qed

lemma first_seek:
  "seek sample_deps 5 http_queue
     = \<lparr> o_queue = http_queue\<lparr>xfilters := [Arg ''-ss'', Arg ''5ms'', Arg ''-accurate_seek''],
                              applyingFilters := True, seekTime := 5\<rparr>,
         o_launched = Some (Fetching http_track http_info), o_posted = [], o_thrown = None \<rparr>"
  by (simp add: eval_defs)

theorem rearm_while_pending_witness:
  "o_launched (seek sample_deps 7 seeking_queue) = None
   \<and> o_launched (filters sample_deps (timescale_spec (Some 2) None) seeking_queue) = None
   \<and> o_launched (ffmpeg sample_deps [''-af'', ''volume=2''] seeking_queue) = None
   \<and> o_queue (seek sample_deps 7 seeking_queue)
       = seeking_queue\<lparr>xfilters := [Arg ''-accurate_seek'', Arg ''-ss'', Arg ''7ms'', Arg ''-accurate_seek''],
                       seekTime := 7\<rparr>
   \<and> play_resume http_track (probed_resource http_track) seeking_queue
       = (seeking_queue, Destroyed (probed_resource http_track), [])
   \<and> run sample_deps (http_queue, []) [ByRearm (DoSeek 5), ByRearm (DoSeek 7)]
        (o_queue (seek sample_deps 7 seeking_queue), [Fetching http_track http_info])
   \<and> length [Fetching http_track http_info] \<le> 1
   \<and> applyingFilters (o_queue (seek sample_deps 7 seeking_queue))"
proof -
  have flag: "applyingFilters seeking_queue" by (simp add: seeking_queue_def)
  note T = rearm_while_pending
    [of seeking_queue sample_deps 7 "timescale_spec (Some 2) None" "[''-af'', ''volume=2'']"
        http_track "probed_resource http_track" http_queue "[ByRearm (DoSeek 5), ByRearm (DoSeek 7)]"
        "o_queue (seek sample_deps 7 seeking_queue)" "[Fetching http_track http_info]"]
  from T flag have p: "o_launched (seek sample_deps 7 seeking_queue) = None
      \<and> o_launched (filters sample_deps (timescale_spec (Some 2) None) seeking_queue) = None
      \<and> o_launched (ffmpeg sample_deps [''-af'', ''volume=2''] seeking_queue) = None
      \<and> o_queue (seek sample_deps 7 seeking_queue)
          = seeking_queue\<lparr>xfilters := seek_chain 7 (xfilters seeking_queue), seekTime := 7\<rparr>
      \<and> play_resume http_track (probed_resource http_track) seeking_queue
          = (seeking_queue, Destroyed (probed_resource http_track), [])"
    by blast
  have chain: "seek_chain 7 (xfilters seeking_queue)
      = [Arg ''-accurate_seek'', Arg ''-ss'', Arg ''7ms'', Arg ''-accurate_seek'']"
    by (simp add: seeking_queue_def seek_chain_def splice_def show_int_def show_nat.simps)
  have s1: "step sample_deps (http_queue, []) (ByRearm (DoSeek 5))
              (seeking_queue, [Fetching http_track http_info])"
    using step.command [of sample_deps http_queue "[]" "DoSeek 5"]
    by (simp add: first_seek seeking_queue_def)
  have s2: "step sample_deps (seeking_queue, [Fetching http_track http_info]) (ByRearm (DoSeek 7))
              (o_queue (seek sample_deps 7 seeking_queue), [Fetching http_track http_info])"
    using step.command [of sample_deps seeking_queue "[Fetching http_track http_info]" "DoSeek 7"] p
    by simp
  have rn: "run sample_deps (http_queue, []) [ByRearm (DoSeek 5), ByRearm (DoSeek 7)]
        (o_queue (seek sample_deps 7 seeking_queue), [Fetching http_track http_info])"
    using run_snoc [OF run_snoc [OF run_nil s1] s2] by simp
  have np: "\<not> list_ex is_play [ByRearm (DoSeek 5), ByRearm (DoSeek 7)]" by simp
  from T rn np have inv: "length [Fetching http_track http_info] \<le> 1
      \<and> ([Fetching http_track http_info] = [] \<or> applyingFilters (o_queue (seek sample_deps 7 seeking_queue)))"
    by blast
  from p chain rn inv show ?thesis by simp
qed

subsection \<open>Routing of PLAY\<close>



















subsection \<open>Resume\<close>

lemma send_all_sent: "sent (send_all s es g) = (sent g)(s := sent g s @ es)"
  by (induction es arbitrary: g) (auto simp add: send_def fun_eq_iff)

lemma send_all_frame:
  "timers (send_all s es g) = timers g
   \<and> socketDeleteTimeouts (send_all s es g) = socketDeleteTimeouts g
   \<and> connections (send_all s es g) = connections g
   \<and> playerMap (send_all s es g) = playerMap g"
  by (induction es arbitrary: g) (auto simp add: send_def)

lemma upgrade_callback_resume:
  assumes r: "resumable request g = Some (k, buf)"
  shows "sent (upgrade_callback userID request s g) = (sent g)(s := sent g s @ events buf)
     \<and> timers (upgrade_callback userID request s g) = removeAll (timeout buf) (timers g)
     \<and> socketDeleteTimeouts (upgrade_callback userID request s g) = (socketDeleteTimeouts g)(k := None)
     \<and> playerMap (upgrade_callback userID request s g) = playerMap g"
  using r by (simp add: upgrade_callback_def Let_def send_all_sent send_all_frame)

lemma upgrade_callback_plain:
  assumes r: "resumable request g = None"
  shows "sent (upgrade_callback userID request s g) = sent g
     \<and> timers (upgrade_callback userID request s g) = timers g
     \<and> socketDeleteTimeouts (upgrade_callback userID request s g) = socketDeleteTimeouts g"
  using r by (simp add: upgrade_callback_def)

lemma on_upgrade_accepted:
  "\<not> passwordIncorrect password request \<Longrightarrow> \<not> invalidUserID request \<Longrightarrow>
   \<exists>userID. hdr_user_id request = Some userID
     \<and> on_upgrade password request s g
         = (Upgraded (headers_listener request g), upgrade_callback userID request s g)"
  by (cases "hdr_user_id request") (auto simp add: on_upgrade_def invalidUserID_def)

lemma active_buffer_key_Some:
  "active_buffer_key rKey g = Some k \<Longrightarrow> k \<noteq> [] \<and> socketDeleteTimeouts g k \<noteq> None"
  by (auto simp add: active_buffer_key_def split: option.splits if_splits)

lemma close_keeps_empty_key:
  "socketDeleteTimeouts g [] = None \<Longrightarrow> onClientClose sock u timer g = Inr (g1, b) \<Longrightarrow>
   socketDeleteTimeouts g1 [] = None"
  by (auto simp add: onClientClose_def Let_def split: option.splits if_splits)

lemma pool_message_keeps_empty_key:
  "socketDeleteTimeouts g [] = None \<Longrightarrow> socketDeleteTimeouts (on_pool_message cid d g) [] = None"
  by (auto simp add: on_pool_message_def Let_def send_def push_event_def
           split: option.splits dest: active_buffer_key_Some)

lemma upgrade_keeps_empty_key:
  "socketDeleteTimeouts g [] = None \<Longrightarrow>
   socketDeleteTimeouts (snd (on_upgrade password request s g)) [] = None"
proof (cases "resumable request g")
  case None
  assume "socketDeleteTimeouts g [] = None"
  then show ?thesis
    using upgrade_callback_plain [OF None]
    by (auto simp add: on_upgrade_def split: option.splits)
next
  case (Some kb)
  obtain k buf where kb: "kb = (k, buf)" by (cases kb)
  assume "socketDeleteTimeouts g [] = None"
  then show ?thesis
    using upgrade_callback_resume [OF Some [unfolded kb]]
    by (auto simp add: on_upgrade_def split: option.splits)
qed

text \<open>
  C5. For an upgrade request that passes the password and user-id checks: when its
  \<open>Resume-Key\<close> names a resume buffer, the response has \<open>Session-Resumed: true\<close>, the
  buffer's timer is cleared and the buffer is deleted, and the new socket is sent exactly
  the buffered events, in their order, after whatever it had been sent (nothing, for a
  new socket), while no other socket is sent anything; when the request has no
  \<open>Resume-Key\<close> or the key names no buffer, the header is \<open>Session-Resumed: false\<close> and
  nothing is sent. The empty key never names a buffer: no operation of the gateway
  creates one under it.
\<close>

theorem resume_replays_buffer:
  "(\<not> passwordIncorrect password request \<and> \<not> invalidUserID request \<longrightarrow>
     (hdr_resume_key request = Some k \<and> k \<noteq> [] \<and> socketDeleteTimeouts g k = Some buf \<longrightarrow>
        fst (on_upgrade password request s g)
          = Upgraded [''Session-Resumed: true'', ''Lavalink-Major-Version: 3'', ''Is-Volcano: true'']
        \<and> timeout buf \<notin> set (timers (snd (on_upgrade password request s g)))
        \<and> socketDeleteTimeouts (snd (on_upgrade password request s g)) k = None
        \<and> sent (snd (on_upgrade password request s g)) s = sent g s @ events buf
        \<and> (\<forall>s'. s' \<noteq> s \<longrightarrow> sent (snd (on_upgrade password request s g)) s' = sent g s'))
     \<and> (hdr_resume_key request = None
          \<or> (\<exists>k'. hdr_resume_key request = Some k' \<and> socketDeleteTimeouts g k' = None) \<longrightarrow>
        fst (on_upgrade password request s g)
          = Upgraded [''Session-Resumed: false'', ''Lavalink-Major-Version: 3'', ''Is-Volcano: true'']
        \<and> sent (snd (on_upgrade password request s g)) = sent g))
   \<and> (socketDeleteTimeouts g [] = None \<longrightarrow>
        socketDeleteTimeouts (snd (on_upgrade password request s g)) [] = None
        \<and> socketDeleteTimeouts (on_pool_message msg_clientID d g) [] = None
        \<and> (\<forall>sock u timer g1 b. onClientClose sock u timer g = Inr (g1, b) \<longrightarrow>
               socketDeleteTimeouts g1 [] = None))"
proof (intro impI conjI)
  assume acc: "\<not> passwordIncorrect password request \<and> \<not> invalidUserID request"
  then obtain userID where u: "on_upgrade password request s g
         = (Upgraded (headers_listener request g), upgrade_callback userID request s g)"
    using on_upgrade_accepted [of password request s g] by blast
  {
    assume a: "hdr_resume_key request = Some k \<and> k \<noteq> [] \<and> socketDeleteTimeouts g k = Some buf"
    then have r: "resumable request g = Some (k, buf)" by (simp add: resumable_def)
    note c = upgrade_callback_resume [OF r, of userID s]
    show "fst (on_upgrade password request s g)
          = Upgraded [''Session-Resumed: true'', ''Lavalink-Major-Version: 3'', ''Is-Volcano: true'']"
      by (simp add: u headers_listener_def r)
    show "timeout buf \<notin> set (timers (snd (on_upgrade password request s g)))"
      by (simp add: u c)
    show "socketDeleteTimeouts (snd (on_upgrade password request s g)) k = None"
      by (simp add: u c)
    show "sent (snd (on_upgrade password request s g)) s = sent g s @ events buf"
      by (simp add: u c)
    show "\<forall>s'. s' \<noteq> s \<longrightarrow> sent (snd (on_upgrade password request s g)) s' = sent g s'"
      by (simp add: u c)
  }
  {
    assume a: "hdr_resume_key request = None
          \<or> (\<exists>k'. hdr_resume_key request = Some k' \<and> socketDeleteTimeouts g k' = None)"
    then have r: "resumable request g = None" by (auto simp add: resumable_def)
    show "fst (on_upgrade password request s g)
          = Upgraded [''Session-Resumed: false'', ''Lavalink-Major-Version: 3'', ''Is-Volcano: true'']"
      by (simp add: u headers_listener_def r)
    show "sent (snd (on_upgrade password request s g)) = sent g"
      by (simp add: u upgrade_callback_plain [OF r])
  }
next
  assume e: "socketDeleteTimeouts g [] = None"
  then show "socketDeleteTimeouts (snd (on_upgrade password request s g)) [] = None"
    by (rule upgrade_keeps_empty_key)
  from e show "socketDeleteTimeouts (on_pool_message msg_clientID d g) [] = None"
    by (rule pool_message_keeps_empty_key)
  from e show "\<forall>sock u timer g1 b. onClientClose sock u timer g = Inr (g1, b) \<longrightarrow>
               socketDeleteTimeouts g1 [] = None"
    using close_keeps_empty_key by blast
qed

subsection \<open>Outbound events\<close>

lemma push_event_frame:
  "sent (push_event k d g) = sent g \<and> playerMap (push_event k d g) = playerMap g
   \<and> timers (push_event k d g) = timers g \<and> connections (push_event k d g) = connections g"
  by (simp add: push_event_def split: option.splits)

text \<open>
  What the handler does with an event. Without a socket in \<open>playerMap\<close> for its key
  nothing happens; with one, the event is handed to \<open>send\<close> on that socket in every case,
  and on no other. The buffer that gets the event is the one named by the resume key of
  the first connection of the entry that holds the socket, whichever connection of that
  entry the socket belongs to.
\<close>

lemma on_pool_message_first_connection:
  "(playerMap g (queue_key msg_clientID (data_guildId d)) = None \<longrightarrow>
      on_pool_message msg_clientID d g = g)
   \<and> (playerMap g (queue_key msg_clientID (data_guildId d)) = Some s \<longrightarrow>
      sent (on_pool_message msg_clientID d g) = (sent g)(s := sent g s @ [d])
      \<and> (find (\<lambda>i. list_ex (\<lambda>c. socket c = s) i) (map snd (connections g)) = Some (c # rest) \<longrightarrow>
          (resumeKey c = Some k \<and> k \<noteq> [] \<and> socketDeleteTimeouts g k = Some buf \<longrightarrow>
             socketDeleteTimeouts (on_pool_message msg_clientID d g)
               = (socketDeleteTimeouts g)(k \<mapsto> buf\<lparr>events := events buf @ [d]\<rparr>))
          \<and> (resumeKey c = None
               \<or> (\<exists>k'. resumeKey c = Some k' \<and> socketDeleteTimeouts g k' = None) \<longrightarrow>
             socketDeleteTimeouts (on_pool_message msg_clientID d g) = socketDeleteTimeouts g)))"
proof (intro conjI impI)
  assume "playerMap g (queue_key msg_clientID (data_guildId d)) = None"
  then show "on_pool_message msg_clientID d g = g"
    by (simp add: on_pool_message_def Let_def active_buffer_key_def)
next
  assume p: "playerMap g (queue_key msg_clientID (data_guildId d)) = Some s"
  then show "sent (on_pool_message msg_clientID d g) = (sent g)(s := sent g s @ [d])"
    by (simp add: on_pool_message_def Let_def send_def push_event_frame split: option.splits)
next
  assume p: "playerMap g (queue_key msg_clientID (data_guildId d)) = Some s"
    and e: "find (\<lambda>i. list_ex (\<lambda>c. socket c = s) i) (map snd (connections g)) = Some (c # rest)"
    and b: "resumeKey c = Some k \<and> k \<noteq> [] \<and> socketDeleteTimeouts g k = Some buf"
  from b have act: "active_buffer_key (Some c) g = Some k"
    by (simp add: active_buffer_key_def)
  from p e act b show "socketDeleteTimeouts (on_pool_message msg_clientID d g)
               = (socketDeleteTimeouts g)(k \<mapsto> buf\<lparr>events := events buf @ [d]\<rparr>)"
    by (simp add: on_pool_message_def Let_def send_def push_event_def)
next
  assume p: "playerMap g (queue_key msg_clientID (data_guildId d)) = Some s"
    and e: "find (\<lambda>i. list_ex (\<lambda>c. socket c = s) i) (map snd (connections g)) = Some (c # rest)"
    and b: "resumeKey c = None \<or> (\<exists>k'. resumeKey c = Some k' \<and> socketDeleteTimeouts g k' = None)"
  from b have act: "active_buffer_key (Some c) g = None"
    by (auto simp add: active_buffer_key_def)
  from p e act show "socketDeleteTimeouts (on_pool_message msg_clientID d g) = socketDeleteTimeouts g"
    by (simp add: on_pool_message_def Let_def send_def)
qed

lemma close_gives_closed: "onClientClose 1 ''42'' 9 connected_gateway = Inr (closed_gateway, False)"
  by (simp add: onClientClose_def connected_gateway_def closed_gateway_def)

lemma closed_first:
  "on_pool_message ''42'' track_end closed_gateway
     = closed_gateway\<lparr> socketDeleteTimeouts := [''k'' \<mapsto> \<lparr> timeout = 9, events = [track_end] \<rparr>],
                       sent := (\<lambda>s. [])(1 := [track_end]) \<rparr>"
  by (simp add: on_pool_message_def closed_gateway_def connected_gateway_def track_end_def queue_key_def
        active_buffer_key_def push_event_def send_def Let_def)

lemma buffered_eq:
  "buffered_gateway
     = closed_gateway\<lparr> socketDeleteTimeouts := [''k'' \<mapsto> \<lparr> timeout = 9, events = [track_end, track_start] \<rparr>],
                       sent := (\<lambda>s. [])(1 := [track_end, track_start]) \<rparr>"
  by (simp add: buffered_gateway_def closed_first)
     (simp add: on_pool_message_def closed_gateway_def connected_gateway_def track_start_def queue_key_def
        active_buffer_key_def push_event_def send_def Let_def)

text \<open>
  C6. The buffer test of line 78 is made on the first connection of the user's entry
  (\<open>find(c => c.socket)\<close>), not on the connection of the socket that \<open>playerMap\<close> gave.
  User 42 has two clients; the one on socket 1 (resume key k) disconnects, which creates
  its buffer, and the one on socket 2 (no resume key) stays. With the connection of socket
  1 first, an event for room 200 is sent on socket 2 and appended to the buffer k as well.
  With the connection of socket 2 first, an event for room 100, whose socket 1 is closed
  and whose connection has the active buffer k, is not appended to any buffer: it is
  handed to \<open>send\<close> on the closed socket only.
\<close>

theorem outbound_first_connection_slip:
  "map_option (map (\<lambda>c. (socket c, resumeKey c))) (map_of (connections shared_gateway) ''42'')
     = Some [(1, Some ''k''), (2, None)]
   \<and> playerMap shared_gateway (queue_key ''42'' (data_guildId room200_event)) = Some 2
   \<and> onClientClose 1 ''42'' 9 shared_gateway
     = Inr (shared_gateway\<lparr> timers := [9],
                            socketDeleteTimeouts := [''k'' \<mapsto> \<lparr> timeout = 9, events = [] \<rparr>] \<rparr>, False)
   \<and> on_pool_message ''42'' room200_event
        (shared_gateway\<lparr> timers := [9],
                         socketDeleteTimeouts := [''k'' \<mapsto> \<lparr> timeout = 9, events = [] \<rparr>] \<rparr>)
     = shared_gateway\<lparr> timers := [9],
                       socketDeleteTimeouts := [''k'' \<mapsto> \<lparr> timeout = 9, events = [room200_event] \<rparr>],
                       sent := (\<lambda>s. [])(2 := [room200_event]) \<rparr>
   \<and> map_option (map (\<lambda>c. (socket c, resumeKey c))) (map_of (connections mirrored_gateway) ''42'')
     = Some [(2, None), (1, Some ''k'')]
   \<and> playerMap mirrored_gateway (queue_key ''42'' (data_guildId track_end)) = Some 1
   \<and> onClientClose 1 ''42'' 9 mirrored_gateway
     = Inr (mirrored_gateway\<lparr> timers := [9],
                              socketDeleteTimeouts := [''k'' \<mapsto> \<lparr> timeout = 9, events = [] \<rparr>] \<rparr>, False)
   \<and> on_pool_message ''42'' track_end
        (mirrored_gateway\<lparr> timers := [9],
                           socketDeleteTimeouts := [''k'' \<mapsto> \<lparr> timeout = 9, events = [] \<rparr>] \<rparr>)
     = mirrored_gateway\<lparr> timers := [9],
                         socketDeleteTimeouts := [''k'' \<mapsto> \<lparr> timeout = 9, events = [] \<rparr>],
                         sent := (\<lambda>s. [])(1 := [track_end]) \<rparr>"
  by (simp add: onClientClose_def on_pool_message_def shared_gateway_def mirrored_gateway_def
        room200_event_def track_end_def queue_key_def active_buffer_key_def push_event_def send_def
        Let_def)

theorem filters_timescale_witness:
  "rate (o_queue (filters sample_deps (timescale_spec (Some 2) None) pending_queue)) = 2
   \<and> timescale_expr sample_deps \<lparr> ts_rate = None, ts_pitch = None, ts_speed = Some 2 \<rparr>
       = ''aresample=48000,asetrate=48000*1,atempo=2,aresample=48000''
   \<and> xfilters (o_queue (filters sample_deps (timescale_spec (Some 2) None) pending_queue))
       = [Arg ''aresample=48000,asetrate=48000*1,atempo=2,aresample=48000'']
   \<and> (\<exists>q1. filters sample_deps (timescale_spec (Some 2) None) pending_queue = rearm sample_deps q1
            \<and> Arg ''aresample=48000,asetrate=48000*1,atempo=2,aresample=48000'' \<in> set (xfilters q1)
            \<and> rate q1 = 2)"
proof -
  let ?ts = "\<lparr> ts_rate = None, ts_pitch = None, ts_speed = Some 2 \<rparr>"
  have hyp: "f_timescale (timescale_spec (Some 2) None) = Some ?ts
      \<and> (f_equalizer (timescale_spec (Some 2) None) = None \<or> f_equalizer (timescale_spec (Some 2) None) = Some [])"
    by (simp add: timescale_spec_def)
  note T = filters_timescale [of "timescale_spec (Some 2) None" ?ts sample_deps pending_queue, THEN mp, OF hyp]
  have n: "num_or (ts_speed ?ts) 1 = 2 \<and> num_or (ts_pitch ?ts) 1 = 1 \<and> num_or (ts_rate ?ts) 1 = 1"
    by (simp add: num_or_def)
  have strs: "num_str sample_deps 1 = ''1'' \<and> num_str sample_deps 2 = ''2''"
    by (simp add: sample_deps_def show_int_def show_nat.simps)
  from T have e: "timescale_expr sample_deps ?ts
       = ''aresample=48000,asetrate=48000*1,atempo=2,aresample=48000''"
    by (simp add: n strs)
  from T have r: "rate (o_queue (filters sample_deps (timescale_spec (Some 2) None) pending_queue)) = 2"
    by (simp add: n)
  from T have x: "\<exists>q1. filters sample_deps (timescale_spec (Some 2) None) pending_queue = rearm sample_deps q1
            \<and> Arg ''aresample=48000,asetrate=48000*1,atempo=2,aresample=48000'' \<in> set (xfilters q1)
            \<and> rate q1 = 2"
    using e by (simp add: num_or_def)
  have c: "xfilters (o_queue (filters sample_deps (timescale_spec (Some 2) None) pending_queue))
       = [Arg ''aresample=48000,asetrate=48000*1,atempo=2,aresample=48000'']"
    by (simp add: pending_queue_def ts2)
  from e r x c show ?thesis by blast
qed

theorem resume_replays_buffer_witness:
  "socketDeleteTimeouts buffered_gateway ''k'' = Some \<lparr> timeout = 9, events = [track_end, track_start] \<rparr>
   \<and> timers buffered_gateway = [9]
   \<and> sent buffered_gateway 2 = []
   \<and> fst (on_upgrade None resume_request 2 buffered_gateway)
       = Upgraded [''Session-Resumed: true'', ''Lavalink-Major-Version: 3'', ''Is-Volcano: true'']
   \<and> timers (snd (on_upgrade None resume_request 2 buffered_gateway)) = []
   \<and> socketDeleteTimeouts (snd (on_upgrade None resume_request 2 buffered_gateway)) ''k'' = None
   \<and> sent (snd (on_upgrade None resume_request 2 buffered_gateway)) 2 = [track_end, track_start]
   \<and> socketDeleteTimeouts (snd (on_upgrade None resume_request 2 buffered_gateway)) [] = None
   \<and> fst (on_upgrade None (resume_request\<lparr>hdr_resume_key := None\<rparr>) 2 buffered_gateway)
       = Upgraded [''Session-Resumed: false'', ''Lavalink-Major-Version: 3'', ''Is-Volcano: true'']
   \<and> fst (on_upgrade None (resume_request\<lparr>hdr_resume_key := Some ''other''\<rparr>) 2 buffered_gateway)
       = Upgraded [''Session-Resumed: false'', ''Lavalink-Major-Version: 3'', ''Is-Volcano: true'']"
proof -
  let ?buf = "\<lparr> timeout = 9, events = [track_end, track_start] \<rparr>"
  let ?nokey = "resume_request\<lparr>hdr_resume_key := None\<rparr>"
  let ?other = "resume_request\<lparr>hdr_resume_key := Some ''other''\<rparr>"
  have acc: "\<not> passwordIncorrect None resume_request \<and> \<not> invalidUserID resume_request"
    by (simp add: passwordIncorrect_def invalidUserID_def resume_request_def)
  have acc1: "\<not> passwordIncorrect None ?nokey \<and> \<not> invalidUserID ?nokey"
    by (simp add: passwordIncorrect_def invalidUserID_def resume_request_def)
  have acc2: "\<not> passwordIncorrect None ?other \<and> \<not> invalidUserID ?other"
    by (simp add: passwordIncorrect_def invalidUserID_def resume_request_def)
  have b: "socketDeleteTimeouts buffered_gateway ''k'' = Some ?buf"
    by (simp add: buffered_eq)
  have t: "timers buffered_gateway = [9]"
    by (simp add: buffered_eq closed_gateway_def)
  have s2: "sent buffered_gateway 2 = []"
    by (simp add: buffered_eq)
  have h: "hdr_resume_key resume_request = Some ''k'' \<and> ''k'' \<noteq> [] \<and> socketDeleteTimeouts buffered_gateway ''k'' = Some ?buf"
    using b by (simp add: resume_request_def)
  have h1: "hdr_resume_key ?nokey = None
          \<or> (\<exists>k'. hdr_resume_key ?nokey = Some k' \<and> socketDeleteTimeouts buffered_gateway k' = None)"
    by simp
  have h2: "hdr_resume_key ?other = None
          \<or> (\<exists>k'. hdr_resume_key ?other = Some k' \<and> socketDeleteTimeouts buffered_gateway k' = None)"
    by (simp add: buffered_eq)
  note T = resume_replays_buffer [of None resume_request "''k''" buffered_gateway ?buf 2,
             THEN conjunct1, THEN mp, OF acc]
  note T1 = resume_replays_buffer [of None ?nokey _ buffered_gateway _ 2, THEN conjunct1, THEN mp, OF acc1]
  note T2 = resume_replays_buffer [of None ?other _ buffered_gateway _ 2, THEN conjunct1, THEN mp, OF acc2]
  have nk: "socketDeleteTimeouts buffered_gateway [] = None" by (simp add: buffered_eq)
  note T3 = resume_replays_buffer [of None resume_request "''k''" buffered_gateway ?buf 2 "''42''" track_end,
             THEN conjunct2, THEN mp, OF nk]
  from T3 have c3: "socketDeleteTimeouts (snd (on_upgrade None resume_request 2 buffered_gateway)) [] = None"
    by blast
  from T h have c: "fst (on_upgrade None resume_request 2 buffered_gateway)
          = Upgraded [''Session-Resumed: true'', ''Lavalink-Major-Version: 3'', ''Is-Volcano: true'']
        \<and> timeout ?buf \<notin> set (timers (snd (on_upgrade None resume_request 2 buffered_gateway)))
        \<and> socketDeleteTimeouts (snd (on_upgrade None resume_request 2 buffered_gateway)) ''k'' = None
        \<and> sent (snd (on_upgrade None resume_request 2 buffered_gateway)) 2 = sent buffered_gateway 2 @ events ?buf"
    by blast
  from T1 h1 have c1: "fst (on_upgrade None ?nokey 2 buffered_gateway)
          = Upgraded [''Session-Resumed: false'', ''Lavalink-Major-Version: 3'', ''Is-Volcano: true'']"
    by blast
  from T2 h2 have c2: "fst (on_upgrade None ?other 2 buffered_gateway)
          = Upgraded [''Session-Resumed: false'', ''Lavalink-Major-Version: 3'', ''Is-Volcano: true'']"
    by blast
  have r: "resumable resume_request buffered_gateway = Some (''k'', ?buf)"
    using b by (simp add: resumable_def resume_request_def)
  have tm: "timers (snd (on_upgrade None resume_request 2 buffered_gateway)) = []"
    using acc upgrade_callback_resume [OF r, of "''42''" 2] t
    by (simp add: on_upgrade_def resume_request_def)
  from b t s2 c c1 c2 c3 tm show ?thesis by simp
qed

end
